theory Spec2Isabelle
  imports Complex_Main
begin

section \<open>The artificial horizon widget of ros\_groundstation\<close>

text \<open>
  A shallow embedding of \<^verbatim>\<open>src/ros_groundstation/artificial_horizon.py\<close>.
  The widget draws through a \<^verbatim>\<open>QPainter\<close>; the painter is modelled as an explicit
  state (world transform, pen, brush) together with the list of the drawing calls issued so
  far, each recorded with the state it was issued in. Python integers are \<open>int\<close>
  and Python floats are read as exact reals (rounding is not modelled). The file is
  written for Python 2 (implicit relative import, \<^verbatim>\<open>u''\<close> literal): \<^verbatim>\<open>/\<close> between
  two integers is floor division, \<open>div\<close> here, and true division as soon as one operand
  is a float. Arguments of Qt calls are recorded as the script passes them.
\<close>

subsection \<open>Qt values\<close>

datatype color = Qt_red | Qt_green | Qt_white | Qt_yellow | Qt_black
  | QColor nat nat nat nat

datatype pen_style = SolidLine
datatype cap_style = SquareCap | RoundCap
datatype brush_style = NoBrush | SolidPattern
datatype alignment = AlignCenter

record qpen =
  pen_color :: color
  pen_width :: nat
  pen_style :: pen_style
  pen_cap :: cap_style

record qbrush =
  brush_color :: color
  brush_style :: brush_style

text \<open>\<^verbatim>\<open>QPen(QBrush(c), w, style)\<close> has the default square cap;
  \<^verbatim>\<open>QPen(QBrush(c), w, style, cap)\<close> names it.\<close>

definition QPen3 :: "color \<Rightarrow> nat \<Rightarrow> pen_style \<Rightarrow> qpen" where
  "QPen3 c w s = \<lparr>pen_color = c, pen_width = w, pen_style = s, pen_cap = SquareCap\<rparr>"

definition QPen4 :: "color \<Rightarrow> nat \<Rightarrow> pen_style \<Rightarrow> cap_style \<Rightarrow> qpen" where
  "QPen4 c w s k = \<lparr>pen_color = c, pen_width = w, pen_style = s, pen_cap = k\<rparr>"

text \<open>\<^verbatim>\<open>setPen(color)\<close> builds a solid pen of width 1 in that colour.\<close>

definition QPen1 :: "color \<Rightarrow> qpen" where
  "QPen1 c = \<lparr>pen_color = c, pen_width = 1, pen_style = SolidLine, pen_cap = SquareCap\<rparr>"

definition QBrush2 :: "color \<Rightarrow> brush_style \<Rightarrow> qbrush" where
  "QBrush2 c s = \<lparr>brush_color = c, brush_style = s\<rparr>"

text \<open>\<^verbatim>\<open>QBrush(color)\<close> and \<^verbatim>\<open>setBrush(color)\<close> give a solid brush.\<close>

definition QBrush1 :: "color \<Rightarrow> qbrush" where
  "QBrush1 c = QBrush2 c SolidPattern"

datatype qpoint = QPoint real real

datatype qrectf = QRectF real real real real | QRectF_pts qpoint qpoint

text \<open>The text handed to \<^verbatim>\<open>drawText\<close>: a string, or the battery voltage under the
  format \<^verbatim>\<open>"{0:.1f}V"\<close>, which is kept unevaluated.\<close>

datatype label = Str string | Format_1f_V real

datatype draw_call =
    is_FillRect: FillRect qrectf qbrush
  | is_DrawLine: DrawLine real real real real
  | is_DrawText: DrawText qpoint label
  | is_DrawTextRect: DrawTextRect qrectf alignment label
  | is_DrawTextOption: DrawTextOption qrectf label alignment
  | is_DrawPolygon: DrawPolygon "qpoint list"
  | is_DrawConvexPolygon: DrawConvexPolygon "qpoint list"
  | is_DrawArc: DrawArc qrectf int int

subsection \<open>The world transform\<close>

text \<open>An affine \<^verbatim>\<open>QTransform\<close>: a point \<open>(x, y)\<close> maps to
  \<open>(x * m11 + y * m21 + m_dx, x * m12 + y * m22 + m_dy)\<close>. \<^verbatim>\<open>translate\<close> and
  \<^verbatim>\<open>rotate\<close> multiply from the left, as Qt does; the angle is in degrees.\<close>

record qtransform =
  m11 :: real
  m12 :: real
  m21 :: real
  m22 :: real
  m_dx :: real
  m_dy :: real

definition identity_transform :: qtransform where
  "identity_transform = \<lparr>m11 = 1, m12 = 0, m21 = 0, m22 = 1, m_dx = 0, m_dy = 0\<rparr>"

definition tf_translate :: "real \<Rightarrow> real \<Rightarrow> qtransform \<Rightarrow> qtransform" where
  "tf_translate tx ty t =
     t\<lparr>m_dx := m_dx t + tx * m11 t + ty * m21 t,
       m_dy := m_dy t + ty * m22 t + tx * m12 t\<rparr>"

definition tf_rotate :: "real \<Rightarrow> qtransform \<Rightarrow> qtransform" where
  "tf_rotate a t =
     (let b = a * (pi / 180); sina = sin b; cosa = cos b
      in t\<lparr>m11 := cosa * m11 t + sina * m21 t,
           m12 := cosa * m12 t + sina * m22 t,
           m21 := - sina * m11 t + cosa * m21 t,
           m22 := - sina * m12 t + cosa * m22 t\<rparr>)"

subsection \<open>The painter\<close>

record entry =
  e_transform :: qtransform
  e_pen :: qpen
  e_brush :: qbrush
  e_call :: draw_call

record painter =
  transform :: qtransform
  pen :: qpen
  brush :: qbrush
  calls :: "entry list"

text \<open>\<^verbatim>\<open>QPainter(); begin(widget)\<close>: identity transform, a black pen of width 1,
  no brush, nothing drawn.\<close>

definition new_painter :: painter where
  "new_painter =
     \<lparr>transform = identity_transform, pen = QPen1 Qt_black,
      brush = QBrush2 Qt_black NoBrush, calls = []\<rparr>"

definition stamp :: "painter \<Rightarrow> draw_call \<Rightarrow> entry" where
  "stamp p c = \<lparr>e_transform = transform p, e_pen = pen p, e_brush = brush p, e_call = c\<rparr>"

definition emit :: "draw_call \<Rightarrow> painter \<Rightarrow> painter" where
  "emit c p = p\<lparr>calls := calls p @ [stamp p c]\<rparr>"

definition translate :: "real \<Rightarrow> real \<Rightarrow> painter \<Rightarrow> painter" where
  "translate tx ty p = p\<lparr>transform := tf_translate tx ty (transform p)\<rparr>"

definition rotate_deg :: "real \<Rightarrow> painter \<Rightarrow> painter" where
  "rotate_deg a p = p\<lparr>transform := tf_rotate a (transform p)\<rparr>"

definition setPen :: "qpen \<Rightarrow> painter \<Rightarrow> painter" where
  "setPen q p = p\<lparr>pen := q\<rparr>"

definition setBrush :: "qbrush \<Rightarrow> painter \<Rightarrow> painter" where
  "setBrush b p = p\<lparr>brush := b\<rparr>"

definition fillRect :: "qrectf \<Rightarrow> qbrush \<Rightarrow> painter \<Rightarrow> painter" where
  "fillRect r b = emit (FillRect r b)"

definition drawLine :: "real \<Rightarrow> real \<Rightarrow> real \<Rightarrow> real \<Rightarrow> painter \<Rightarrow> painter" where
  "drawLine x1 y1 x2 y2 = emit (DrawLine x1 y1 x2 y2)"

definition drawText :: "qpoint \<Rightarrow> string \<Rightarrow> painter \<Rightarrow> painter" where
  "drawText pt s = emit (DrawText pt (Str s))"

definition drawTextRect :: "qrectf \<Rightarrow> alignment \<Rightarrow> string \<Rightarrow> painter \<Rightarrow> painter" where
  "drawTextRect r a s = emit (DrawTextRect r a (Str s))"

definition drawTextOption :: "qrectf \<Rightarrow> label \<Rightarrow> alignment \<Rightarrow> painter \<Rightarrow> painter" where
  "drawTextOption r l a = emit (DrawTextOption r l a)"

definition drawPolygon :: "qpoint list \<Rightarrow> painter \<Rightarrow> painter" where
  "drawPolygon ps = emit (DrawPolygon ps)"

definition drawConvexPolygon :: "qpoint list \<Rightarrow> painter \<Rightarrow> painter" where
  "drawConvexPolygon ps = emit (DrawConvexPolygon ps)"

definition drawArc :: "qrectf \<Rightarrow> int \<Rightarrow> int \<Rightarrow> painter \<Rightarrow> painter" where
  "drawArc r a b = emit (DrawArc r a b)"

subsection \<open>Python built-ins\<close>

text \<open>\<^verbatim>\<open>str\<close> on an integer, \<^verbatim>\<open>len\<close>, and \<^verbatim>\<open>range(a, b)\<close>.\<close>

definition digit_char :: "nat \<Rightarrow> char" where
  "digit_char d = ''0123456789'' ! d"

fun str_nat :: "nat \<Rightarrow> string" where
  "str_nat n =
     (if n < 10 then [digit_char n] else str_nat (n div 10) @ [digit_char (n mod 10)])"

declare str_nat.simps [simp del]

definition str_int :: "int \<Rightarrow> string" where
  "str_int i = (if i < 0 then CHR ''-'' # str_nat (nat (- i)) else str_nat (nat i))"

definition len :: "string \<Rightarrow> int" where
  "len s = int (length s)"

definition range_py :: "int \<Rightarrow> int \<Rightarrow> int list" where
  "range_py a b = [a..b - 1]"

text \<open>\<^verbatim>\<open>int(x)\<close> on a float truncates towards zero.\<close>

definition int_of_float :: "real \<Rightarrow> int" where
  "int_of_float x = (if 0 \<le> x then \<lfloor>x\<rfloor> else \<lceil>x\<rceil>)"

subsection \<open>Telemetry and the widget\<close>

text \<open>The class attributes of \<^verbatim>\<open>map_subscribers\<close> that the widget reads. The module
  lies outside this file; its attributes are taken as a parameter.\<close>

record subscribers =
  StateSub_phi :: real
  StateSub_theta :: real
  StateSub_Va :: real
  StateSub_alt :: real
  StateSub_chi :: real
  GPSDataSub_numSat :: int
  ConComSub_enabled :: bool
  ConComSub_Va_c :: real
  ConComSub_h_c :: real
  ConInSub_enabled :: bool
  ConInSub_theta_c :: real
  BatterySub_enabled :: bool
  BatterySub_voltage :: real
  BatterySub_voltage_percent :: real

record widget =
  height :: int
  width :: int
  roll :: int
  pitch :: int
  speed :: int
  altitude :: int
  heading :: int
  numSat :: int
  pitchInterval :: real

definition initUI :: widget where
  "initUI =
     \<lparr>height = 600, width = 600, roll = 0, pitch = 0, speed = 0, altitude = 0,
      heading = 0, numSat = 0, pitchInterval = 0.013\<rparr>"

definition resizeEvent :: "int \<Rightarrow> int \<Rightarrow> widget \<Rightarrow> widget" where
  "resizeEvent new_width new_height self = self\<lparr>width := new_width, height := new_height\<rparr>"

subsection \<open>The renderers\<close>

definition drawNumSatellites :: "widget \<Rightarrow> painter \<Rightarrow> painter" where
  "drawNumSatellites self p =
     (let p1 = QPoint 0 0;
          p2 = QPoint (real_of_int (width self) * 0.25) (real_of_int (height self) * 0.1);
          rect = QRectF_pts p1 p2;
          p = (if numSat self < 4
               then setPen (QPen3 Qt_red 2 SolidLine) p
               else setPen (QPen3 Qt_green 2 SolidLine) p)
      in drawTextRect rect AlignCenter
           (''GPS: '' @ str_int (numSat self) @ '' satellites'') p)"

definition drawSky :: "widget \<Rightarrow> painter \<Rightarrow> painter" where
  "drawSky self p =
     (let brush = QBrush2 (QColor 38 89 242 255) SolidPattern
      in fillRect (QRectF 0 0 (real_of_int (width self)) (real_of_int (height self))) brush p)"

definition drawGround :: "widget \<Rightarrow> painter \<Rightarrow> painter" where
  "drawGround self p =
     (let W = real_of_int (width self); H = real_of_int (height self);
          brush = QBrush2 (QColor 84 54 10 255) SolidPattern;
          p = fillRect (QRectF (- 300) (real_of_int (height self div 2)) (W + 600)
                          (H * (0.5 + pitchInterval self * 180)))
                brush p;
          p = setPen (QPen4 Qt_white 2 SolidLine RoundCap) p
      in drawLine (- 300) (real_of_int (height self div 2)) (W + 600)
           (real_of_int (height self div 2)) p)"

text \<open>The heading tape. \<open>directions\<close> is the dictionary of the source, key \<open>215\<close>
  included; \<open>heading_tick\<close> is the body of the loop for one candidate \<open>i\<close>.\<close>

definition directions :: "int \<rightharpoonup> string" where
  "directions =
     map_of [(0, ''N''), (45, ''NE''), (90, ''E''), (135, ''SE''), (180, ''S''),
             (215, ''SW''), (270, ''W''), (315, ''NW'')]"

definition heading_tick :: "widget \<Rightarrow> real \<Rightarrow> int \<Rightarrow> painter \<Rightarrow> painter" where
  "heading_tick self boxHeight i p =
     (if i mod 10 = 0 then
        (let scale = 0.01;
             x = real_of_int (width self) * 0.5
                 - (real_of_int (heading self - i) * scale * real_of_int (width self));
             y = real_of_int (height self) - boxHeight;
             i = (if i < 0 then i + 360 else i);
             i = i mod 360;
             text = str_int i;
             text = (case directions i of Some d \<Rightarrow> d | None \<Rightarrow> text);
             p = drawLine x y x (y + 5) p
         in drawText (QPoint (x + 7 - real_of_int (8 * len text)) (y + 22)) text p)
      else p)"

definition DEGREE_SIGN :: string where
  "DEGREE_SIGN = [char_of (194 :: nat), char_of (176 :: nat)]"

definition drawHeadingIndicator :: "widget \<Rightarrow> painter \<Rightarrow> painter" where
  "drawHeadingIndicator self p =
     (let W = real_of_int (width self); H = real_of_int (height self);
          boxWidth = W * 1.0;
          boxHeight = H * 0.1;
          brush = QBrush1 (QColor 100 100 100 200);
          p = setPen (QPen3 Qt_yellow 2 SolidLine) p;
          p = fillRect (QRectF ((W - boxWidth) / 2) (H - boxHeight) boxWidth boxHeight) brush p;
          p = fold (heading_tick self boxHeight) (range_py (heading self - 49) (heading self + 49)) p;
          p = setBrush (QBrush1 Qt_black) p;
          p1 = QPoint (W * 0.46) H;
          p2 = QPoint (W * 0.46) (H - boxHeight * 0.9);
          p3 = QPoint (W * 0.50) (H - boxHeight);
          p4 = QPoint (W * 0.54) (H - boxHeight * 0.9);
          p5 = QPoint (W * 0.54) H;
          poly = [p1, p2, p3, p4, p5];
          p = setPen (QPen4 (QColor 0 0 0 0) 2 SolidLine RoundCap) p;
          p = drawPolygon poly p;
          p = setPen (QPen4 (QColor 255 255 0 255) 2 SolidLine RoundCap) p;
          rect = QRectF_pts p1 p4
      in drawTextRect rect AlignCenter (str_int (heading self) @ DEGREE_SIGN) p)"

text \<open>The airspeed tape: \<open>airspeed_tick\<close> is the loop body, \<open>airspeed_command\<close> the
  block under \<^verbatim>\<open>if ConComSub.enabled\<close>.\<close>

definition airspeed_tick :: "widget \<Rightarrow> real \<Rightarrow> int \<Rightarrow> painter \<Rightarrow> painter" where
  "airspeed_tick self boxWidth i p =
     (if i mod 10 = 0 \<and> i \<ge> 0 then
        (let scale = 0.01;
             x = boxWidth;
             y = real_of_int (height self) * 0.5
                 + (real_of_int (speed self - i) * scale * real_of_int (height self));
             text = str_int i;
             p = drawLine (x - 5) y x y p
         in drawText (QPoint (x - 10 - real_of_int (8 * len text)) (y + 5)) text p)
      else p)"

definition airspeed_command :: "subscribers \<Rightarrow> widget \<Rightarrow> real \<Rightarrow> real \<Rightarrow> painter \<Rightarrow> painter" where
  "airspeed_command subs self boxWidth boxHeight p =
     (if ConComSub_enabled subs then
        (let W = real_of_int (width self); H = real_of_int (height self);
             scale = 0.01;
             va_c = ConComSub_Va_c subs;
             va_c_y = H * 0.5 + ((real_of_int (speed self) - va_c) * scale * H)
         in if (H - boxHeight) / 2 \<le> va_c_y \<and> va_c_y \<le> (H + boxHeight) / 2 then
              (let triangle_h_dim = W * 0.02;
                   triangle_v_dim = H * 0.01;
                   triangle_right = boxWidth + triangle_h_dim;
                   triangle = [QPoint boxWidth va_c_y,
                               QPoint triangle_right (triangle_v_dim + va_c_y),
                               QPoint triangle_right (- triangle_v_dim + va_c_y)]
               in drawConvexPolygon triangle p)
            else p)
      else p)"

definition drawAirspeedIndicator :: "subscribers \<Rightarrow> widget \<Rightarrow> painter \<Rightarrow> painter" where
  "drawAirspeedIndicator subs self p =
     (let W = real_of_int (width self); H = real_of_int (height self);
          boxWidth = W * 0.13;
          boxHeight = H * 0.6;
          brush = QBrush1 (QColor 100 100 100 200);
          p = setPen (QPen3 Qt_yellow 2 SolidLine) p;
          p = fillRect (QRectF 0 ((H - boxHeight) / 2) boxWidth boxHeight) brush p;
          p = fold (airspeed_tick self boxWidth) (range_py (speed self - 29) (speed self + 29)) p;
          p = airspeed_command subs self boxWidth boxHeight p;
          p = setBrush (QBrush1 Qt_black) p;
          p1 = QPoint 0 (H * 0.46);
          p2 = QPoint (boxWidth * 0.9) (H * 0.46);
          p3 = QPoint boxWidth (H * 0.5);
          p4 = QPoint (boxWidth * 0.9) (H * 0.54);
          p5 = QPoint 0 (H * 0.54);
          poly = [p1, p2, p3, p4, p5];
          p = setPen (QPen4 (QColor 0 0 0 0) 2 SolidLine RoundCap) p;
          p = drawPolygon poly p;
          p = setPen (QPen4 (QColor 255 255 0 255) 2 SolidLine RoundCap) p;
          rect = QRectF_pts p1 p4;
          p = drawTextRect rect AlignCenter (str_int (speed self) @ '' m/s'') p
      in drawText (QPoint 5 ((H - boxHeight) / 2 - 5)) ''Airspeed (m/s IAS)'' p)"

text \<open>The altitude tape, built the same way.\<close>

definition altitude_tick :: "widget \<Rightarrow> real \<Rightarrow> int \<Rightarrow> painter \<Rightarrow> painter" where
  "altitude_tick self boxWidth i p =
     (if i mod 10 = 0 then
        (let scale = 0.01;
             x = real_of_int (width self) - boxWidth;
             y = real_of_int (height self) * 0.5
                 + (real_of_int (altitude self - i) * scale * real_of_int (height self));
             text = str_int i;
             p = drawLine x y (x + 5) y p
         in drawText (QPoint (x + 10) (y + 5)) text p)
      else p)"

definition altitude_command :: "subscribers \<Rightarrow> widget \<Rightarrow> real \<Rightarrow> real \<Rightarrow> painter \<Rightarrow> painter" where
  "altitude_command subs self boxWidth boxHeight p =
     (if ConComSub_enabled subs then
        (let W = real_of_int (width self); H = real_of_int (height self);
             scale = 0.01;
             alt_c = ConComSub_h_c subs;
             alt_c_y = H * 0.5 + ((real_of_int (altitude self) - alt_c) * scale * H)
         in if (H - boxHeight) / 2 \<le> alt_c_y \<and> alt_c_y \<le> (H + boxHeight) / 2 then
              (let triangle_h_dim = W * 0.02;
                   triangle_v_dim = H * 0.01;
                   triangle_left = W - boxWidth - triangle_h_dim;
                   triangle = [QPoint (W - boxWidth) alt_c_y,
                               QPoint triangle_left (triangle_v_dim + alt_c_y),
                               QPoint triangle_left (- triangle_v_dim + alt_c_y)]
               in drawConvexPolygon triangle p)
            else p)
      else p)"

definition drawAltitudeIndicator :: "subscribers \<Rightarrow> widget \<Rightarrow> painter \<Rightarrow> painter" where
  "drawAltitudeIndicator subs self p =
     (let W = real_of_int (width self); H = real_of_int (height self);
          boxWidth = W * 0.13;
          boxHeight = H * 0.6;
          brush = QBrush1 (QColor 100 100 100 200);
          p = setPen (QPen3 Qt_yellow 2 SolidLine) p;
          p = fillRect (QRectF (W - boxWidth) ((H - boxHeight) / 2) boxWidth boxHeight) brush p;
          p = fold (altitude_tick self boxWidth)
                (range_py (altitude self - 29) (altitude self + 29)) p;
          p = setBrush (QBrush1 Qt_yellow) p;
          p = altitude_command subs self boxWidth boxHeight p;
          p = setBrush (QBrush1 Qt_black) p;
          p1 = QPoint W (H * 0.46);
          p2 = QPoint (W - boxWidth * 0.9) (H * 0.46);
          p3 = QPoint (W - boxWidth) (H * 0.5);
          p4 = QPoint (W - boxWidth * 0.9) (H * 0.54);
          p5 = QPoint W (H * 0.54);
          poly = [p1, p2, p3, p4, p5];
          p = setPen (QPen3 (QColor 0 0 0 0) 2 SolidLine) p;
          p = drawPolygon poly p;
          p = setPen (QPen3 (QColor 255 255 0 255) 2 SolidLine) p;
          text = str_int (altitude self) @ '' m'';
          rect = QRectF_pts p1 p4;
          p = drawTextRect rect AlignCenter text p
      in drawText (QPoint (W - boxWidth + 5) ((H - boxHeight) / 2 - 5)) ''Altitude'' p)"

text \<open>The turn indicator: \<open>turn_tick\<close> is the loop body for one angle. The local
  \<^verbatim>\<open>height\<close> of the source is \<open>hgt\<close> here, since \<open>height\<close> names the attribute.\<close>

definition turn_tick ::
  "real \<Rightarrow> real \<Rightarrow> real \<Rightarrow> real \<Rightarrow> real \<Rightarrow> real \<Rightarrow> real \<Rightarrow> real \<Rightarrow> int \<Rightarrow> painter \<Rightarrow> painter" where
  "turn_tick xCenter yCenter x y x2 y2 x3 y3 angle p =
     (let p = translate xCenter yCenter p;
          p = rotate_deg (real_of_int angle) p;
          p = translate (- xCenter) (- yCenter) p;
          p = drawLine x y x2 y2 p;
          text = str_int angle;
          p = drawText (QPoint (x3 - real_of_int (4 * len text)) y3) text p;
          p = translate xCenter yCenter p;
          p = rotate_deg (real_of_int (- angle)) p
      in translate (- xCenter) (- yCenter) p)"

definition drawTurnIndicator :: "widget \<Rightarrow> painter \<Rightarrow> painter" where
  "drawTurnIndicator self p =
     (let W = real_of_int (width self); H = real_of_int (height self);
          p = setBrush (QBrush1 Qt_white) p;
          p = setPen (QPen4 Qt_white 2 SolidLine RoundCap) p;
          radius = W * 0.3;
          yOffset = H * 0.10;
          p = drawArc (QRectF (W * 0.5 - radius) yOffset (2 * radius) (2 * radius))
                (16 * 30) (16 * 120) p;
          hgt = H * 0.02;
          x = real_of_int (width self div 2);
          y = yOffset;
          x2 = x;
          y2 = y - hgt;
          x3 = x;
          y3 = y2 - 5;
          xCenter = real_of_int (width self div 2);
          yCenter = radius + yOffset;
          angles = [- 60, - 45, - 30, - 20, - 10, 0, 10, 20, 30, 45, 60];
          p = fold (turn_tick xCenter yCenter x y x2 y2 x3 y3) angles p;
          hgt = H * 0.025;
          poly = [QPoint x y, QPoint (x - hgt / 2) (y + hgt), QPoint (x + hgt / 2) (y + hgt)];
          p = translate xCenter yCenter p;
          p = rotate_deg (real_of_int (roll self)) p;
          p = translate (- xCenter) (- yCenter) p;
          p = drawPolygon poly p;
          p = translate xCenter yCenter p;
          p = rotate_deg (real_of_int (- roll self)) p
      in translate (- xCenter) (- yCenter) p)"

definition drawAircraftSymbol :: "widget \<Rightarrow> painter \<Rightarrow> painter" where
  "drawAircraftSymbol self p =
     (let W = real_of_int (width self); H = real_of_int (height self);
          brightYellow = QColor 255 255 0 255;
          widthFraction = 0.10;
          heightFraction = 0.05;
          p = setPen (QPen4 brightYellow 5 SolidLine RoundCap) p;
          p = setBrush (QBrush1 brightYellow) p;
          poly = [QPoint (W * 0.5) (H * 0.5),
                  QPoint (W * (0.5 + widthFraction / 2.0)) (H * (0.5 + heightFraction)),
                  QPoint (W * 0.5) (H * (0.5 + heightFraction / 2.0)),
                  QPoint (W * (0.5 - widthFraction / 2.0)) (H * (0.5 + heightFraction))];
          p = drawPolygon poly p;
          space = 0.25;
          length = 0.1;
          p = drawLine (W * space) (real_of_int (height self div 2)) (W * (space + length))
                (real_of_int (height self div 2)) p
      in drawLine (W * (1 - space - length)) (real_of_int (height self div 2)) (W * (1 - space))
           (real_of_int (height self div 2)) p)"

text \<open>The pitch ladder: \<open>pitch_marker\<close> is the loop body for one \<open>i\<close> (the major line
  with its two labels, then the sub-marker five degrees above it), \<open>pitch_command\<close> the
  block under \<^verbatim>\<open>if ConInSub.enabled\<close>.\<close>

definition minHeight :: "widget \<Rightarrow> real" where
  "minHeight self = 0.15 - real_of_int (pitch self) * pitchInterval self"

definition maxHeight :: "widget \<Rightarrow> real" where
  "maxHeight self = 0.85 - real_of_int (pitch self) * pitchInterval self"

definition pitch_marker :: "widget \<Rightarrow> int \<Rightarrow> painter \<Rightarrow> painter" where
  "pitch_marker self i p =
     (let W = real_of_int (width self); H = real_of_int (height self);
          text = str_int (10 * \<bar>i\<bar>);
          hgt = 0.5 - pitchInterval self * 10 * real_of_int i;
          p = (if minHeight self < hgt \<and> hgt < maxHeight self then
                 (let p = drawLine (W * 0.4) (H * hgt) (W * 0.6) (H * hgt) p;
                      p = drawText (QPoint (W * 0.6 + 5) (H * hgt + 5)) text p
                  in drawText (QPoint (W * 0.4 - 22) (H * hgt + 5)) text p)
               else p);
          hgt = hgt - pitchInterval self * 5
      in if minHeight self < hgt \<and> hgt < maxHeight self then
           drawLine (W * 0.45) (H * hgt) (W * 0.55) (H * hgt) p
         else p)"

definition degrees :: "real \<Rightarrow> real" where
  "degrees x = x * (180 / pi)"

definition pitch_command :: "subscribers \<Rightarrow> widget \<Rightarrow> painter \<Rightarrow> painter" where
  "pitch_command subs self p =
     (if ConInSub_enabled subs then
        (let W = real_of_int (width self); H = real_of_int (height self);
             p = setPen (QPen4 Qt_yellow 4 SolidLine RoundCap) p;
             pitch_command = degrees (ConInSub_theta_c subs);
             hgt = 0.5 - pitchInterval self * pitch_command;
             p = (if minHeight self < hgt \<and> hgt < maxHeight self then
                    (let p = drawLine (W * 0.4) (H * hgt) (W * 0.6) (H * hgt) p;
                         p = drawText (QPoint (W * 0.6 + 5) (H * hgt + 5)) ''<'' p
                     in drawText (QPoint (W * 0.4 - 22) (H * hgt + 5)) ''>'' p)
                  else p)
         in setPen (QPen4 Qt_white 2 SolidLine RoundCap) p)
      else p)"

definition drawPitchIndicator :: "subscribers \<Rightarrow> widget \<Rightarrow> painter \<Rightarrow> painter" where
  "drawPitchIndicator subs self p =
     (let p = fold (pitch_marker self) (range_py (- 9) 9) p
      in pitch_command subs self p)"

text \<open>\<^verbatim>\<open>drawOutputIndicator\<close> opens with a bare \<^verbatim>\<open>return\<close>; the statements after
  it (a copy of the altitude tape without the command marker) are never reached.\<close>

definition drawOutputIndicator :: "widget \<Rightarrow> painter \<Rightarrow> painter" where
  "drawOutputIndicator self p = p"

definition drawBatteryMonitor :: "subscribers \<Rightarrow> widget \<Rightarrow> painter \<Rightarrow> painter" where
  "drawBatteryMonitor subs self p =
     (if BatterySub_enabled subs then
        (let W = real_of_int (width self); H = real_of_int (height self);
             p = setBrush (QBrush1 Qt_red) p;
             battery_width = W * 0.13;
             battery_height = 0.05 * H;
             battery_rect = QRectF 0 (0.8 * H) battery_width battery_height;
             fill_rect = QRectF 0 (0.8 * H)
                 (real_of_int (int_of_float (battery_width * BatterySub_voltage_percent subs / 100)))
                 battery_height;
             fill_brush = QBrush2 Qt_green SolidPattern;
             battery_brush = QBrush2 Qt_red SolidPattern;
             p = fillRect battery_rect battery_brush p;
             p = fillRect fill_rect fill_brush p;
             p = setPen (QPen1 Qt_black) p
         in drawTextOption battery_rect (Format_1f_V (BatterySub_voltage subs)) AlignCenter p)
      else p)"

subsection \<open>The redraw\<close>

text \<open>\<^verbatim>\<open>drawArtificialHorizon\<close> first stores the telemetry in the widget
  (\<open>read_subscribers\<close>), then runs the renderers; it returns the widget and the painter.\<close>

definition read_subscribers :: "subscribers \<Rightarrow> widget \<Rightarrow> widget" where
  "read_subscribers subs self =
     self\<lparr>roll := \<lfloor>StateSub_phi subs * (180.0 / pi)\<rfloor>,
          pitch := \<lfloor>StateSub_theta subs * (180.0 / pi)\<rfloor>,
          speed := \<lfloor>StateSub_Va subs\<rfloor>,
          altitude := \<lfloor>StateSub_alt subs\<rfloor>,
          heading := \<lfloor>StateSub_chi subs * (180.0 / pi)\<rfloor> mod 360,
          numSat := GPSDataSub_numSat subs\<rparr>"

definition render :: "subscribers \<Rightarrow> widget \<Rightarrow> painter \<Rightarrow> painter" where
  "render subs self p =
     (let W = real_of_int (width self); H = real_of_int (height self);
          p = drawSky self p;
          p = translate (real_of_int (width self div 2)) (real_of_int (height self div 2)) p;
          p = rotate_deg (real_of_int (- roll self)) p;
          p = translate (real_of_int (- width self div 2)) (real_of_int (- height self div 2)) p;
          p = translate 0 (H * (real_of_int (pitch self) * pitchInterval self)) p;
          p = drawGround self p;
          p = drawPitchIndicator subs self p;
          p = translate 0 (H * (- 1 * real_of_int (pitch self) * pitchInterval self)) p;
          p = drawTurnIndicator self p;
          p = translate (real_of_int (width self div 2)) (real_of_int (height self div 2)) p;
          p = rotate_deg (real_of_int (roll self)) p;
          p = translate (real_of_int (- width self div 2)) (real_of_int (- height self div 2)) p;
          p = drawAircraftSymbol self p;
          p = drawAirspeedIndicator subs self p;
          p = drawAltitudeIndicator subs self p;
          p = drawHeadingIndicator self p;
          p = drawNumSatellites self p;
          p = drawOutputIndicator self p
      in drawBatteryMonitor subs self p)"

definition drawArtificialHorizon :: "subscribers \<Rightarrow> widget \<Rightarrow> painter \<Rightarrow> widget \<times> painter" where
  "drawArtificialHorizon subs self p =
     (let self = read_subscribers subs self in (self, render subs self p))"

definition paintEvent :: "subscribers \<Rightarrow> widget \<Rightarrow> widget \<times> painter" where
  "paintEvent subs self = drawArtificialHorizon subs self new_painter"

subsection \<open>Observing a renderer\<close>

text \<open>\<open>issued f p\<close> lists the drawing calls that the renderer \<open>f\<close> adds when it runs
  on the painter \<open>p\<close>, in the order it issues them.\<close>

definition issued :: "(painter \<Rightarrow> painter) \<Rightarrow> painter \<Rightarrow> draw_call list" where
  "issued f p = map e_call (drop (length (calls p)) (calls (f p)))"

text \<open>\<open>issues f cs\<close>: on every painter, \<open>f\<close> appends to the calls already there, and
  the calls it appends are \<open>cs\<close>.\<close>

definition issues :: "(painter \<Rightarrow> painter) \<Rightarrow> draw_call list \<Rightarrow> bool" where
  "issues f cs = (\<forall>q. \<exists>es. calls (f q) = calls q @ es \<and> map e_call es = cs)"

subsection \<open>Comparing two redraws\<close>

text \<open>\<open>command_pen\<close> is the pen of the commanded-pitch marker. \<open>sim K q q'\<close> relates two
  painters in the same drawing state, neither under the command pen, where the calls of
  \<open>q\<close> are those of \<open>q'\<close> that satisfy \<open>K\<close>; \<open>keeps K\<close> says that \<open>K\<close> holds of
  every entry that is neither a convex polygon nor drawn with the command pen.\<close>

definition command_pen :: qpen where
  "command_pen = QPen4 Qt_yellow 4 SolidLine RoundCap"

definition sim :: "(entry \<Rightarrow> bool) \<Rightarrow> painter \<Rightarrow> painter \<Rightarrow> bool" where
  "sim K q q' =
     (transform q = transform q' \<and> pen q = pen q' \<and> brush q = brush q'
      \<and> pen q' \<noteq> command_pen \<and> calls q = filter K (calls q'))"

definition keeps :: "(entry \<Rightarrow> bool) \<Rightarrow> bool" where
  "keeps K = (\<forall>e. \<not> is_DrawConvexPolygon (e_call e) \<and> e_pen e \<noteq> command_pen \<longrightarrow> K e)"

subsection \<open>A telemetry snapshot for examples\<close>

text \<open>Level flight, heading west, six satellites, no commands and no battery telemetry.\<close>

definition level_flight :: subscribers where
  "level_flight =
     \<lparr>StateSub_phi = 0, StateSub_theta = 0, StateSub_Va = 120, StateSub_alt = 1500,
      StateSub_chi = 3 * pi / 2, GPSDataSub_numSat = 6,
      ConComSub_enabled = False, ConComSub_Va_c = 0, ConComSub_h_c = 0,
      ConInSub_enabled = False, ConInSub_theta_c = 0,
      BatterySub_enabled = False, BatterySub_voltage = 0, BatterySub_voltage_percent = 0\<rparr>"

section \<open>Properties\<close>

subsection \<open>The painter operations\<close>

lemma emit_sel [simp]:
  "transform (emit c p) = transform p"
  "pen (emit c p) = pen p"
  "brush (emit c p) = brush p"
  "calls (emit c p) = calls p @ [stamp p c]"
  by (simp_all add: emit_def)

lemma setPen_sel [simp]:
  "transform (setPen q p) = transform p"
  "pen (setPen q p) = q"
  "brush (setPen q p) = brush p"
  "calls (setPen q p) = calls p"
  by (simp_all add: setPen_def)

lemma setBrush_sel [simp]:
  "transform (setBrush b p) = transform p"
  "pen (setBrush b p) = pen p"
  "brush (setBrush b p) = b"
  "calls (setBrush b p) = calls p"
  by (simp_all add: setBrush_def)

lemma translate_sel [simp]:
  "transform (translate tx ty p) = tf_translate tx ty (transform p)"
  "pen (translate tx ty p) = pen p"
  "brush (translate tx ty p) = brush p"
  "calls (translate tx ty p) = calls p"
  by (simp_all add: translate_def)

lemma rotate_deg_sel [simp]:
  "transform (rotate_deg a p) = tf_rotate a (transform p)"
  "pen (rotate_deg a p) = pen p"
  "brush (rotate_deg a p) = brush p"
  "calls (rotate_deg a p) = calls p"
  by (simp_all add: rotate_deg_def)

lemma stamp_sel [simp]:
  "e_transform (stamp p c) = transform p"
  "e_pen (stamp p c) = pen p"
  "e_brush (stamp p c) = brush p"
  "e_call (stamp p c) = c"
  by (simp_all add: stamp_def)

lemmas draw_defs = fillRect_def drawLine_def drawText_def drawTextRect_def
  drawTextOption_def drawPolygon_def drawConvexPolygon_def drawArc_def

lemmas str_defs = str_int_def str_nat.simps digit_char_def

subsection \<open>The world transform across the redraw\<close>

lemma tf_translate_add [simp]:
  "tf_translate a b (tf_translate c d t) = tf_translate (a + c) (b + d) t"
  by (simp add: tf_translate_def algebra_simps)

lemma tf_translate_zero [simp]: "tf_translate 0 0 t = t"
  by (simp add: tf_translate_def)

lemma rot_cancel:
  fixes c s a b :: real
  assumes "c * c + s * s = 1"
  shows "c * (c * a + s * b) + s * (s * a - c * b) = a"
    and "s * (c * a + s * b) - c * (s * a - c * b) = b"
proof -
  have "c * (c * a + s * b) + s * (s * a - c * b) = (c * c + s * s) * a"
    by (simp add: algebra_simps)
  then show "c * (c * a + s * b) + s * (s * a - c * b) = a" using assms by simp
  have "s * (c * a + s * b) - c * (s * a - c * b) = (c * c + s * s) * b"
    by (simp add: algebra_simps)
  then show "s * (c * a + s * b) - c * (s * a - c * b) = b" using assms by simp
qed

lemma tf_rotate_inverse [simp]: "tf_rotate (- a) (tf_rotate a t) = t"
proof -
  define c where "c = cos (a * (pi / 180))"
  define s where "s = sin (a * (pi / 180))"
  have cs: "c * c + s * s = 1"
    by (simp add: c_def s_def)
  have "tf_rotate (- a) (tf_rotate a t) =
        t\<lparr>m11 := c * (c * m11 t + s * m21 t) + s * (s * m11 t - c * m21 t),
          m12 := c * (c * m12 t + s * m22 t) + s * (s * m12 t - c * m22 t),
          m21 := s * (c * m11 t + s * m21 t) - c * (s * m11 t - c * m21 t),
          m22 := s * (c * m12 t + s * m22 t) - c * (s * m12 t - c * m22 t)\<rparr>"
    by (simp add: tf_rotate_def Let_def c_def s_def algebra_simps)
  also have "\<dots> = t"
    by (simp add: rot_cancel [OF cs])
  finally show ?thesis .
qed

lemma tf_rotate_inverse' [simp]: "tf_rotate a (tf_rotate (- a) t) = t"
  using tf_rotate_inverse [of "- a" t] by simp

lemma fold_transform:
  assumes "\<And>i p. transform (f i p) = transform p"
  shows "transform (fold f xs p) = transform p"
  by (induction xs arbitrary: p) (simp_all add: assms)

lemma turn_tick_transform [simp]:
  "transform (turn_tick xC yC x y x2 y2 x3 y3 a p) = transform p"
  by (simp add: turn_tick_def Let_def draw_defs)

lemma drawTurnIndicator_transform [simp]:
  "transform (drawTurnIndicator self p) = transform p"
  by (simp add: drawTurnIndicator_def Let_def draw_defs fold_transform del: fold_simps)

lemma drawSky_transform [simp]: "transform (drawSky self p) = transform p"
  by (simp add: drawSky_def Let_def draw_defs)

lemma drawGround_transform [simp]: "transform (drawGround self p) = transform p"
  by (simp add: drawGround_def Let_def draw_defs)

lemma pitch_marker_transform [simp]: "transform (pitch_marker self i p) = transform p"
  by (simp add: pitch_marker_def Let_def draw_defs)

lemma pitch_command_transform [simp]: "transform (pitch_command subs self p) = transform p"
  by (simp add: pitch_command_def Let_def draw_defs)

lemma drawPitchIndicator_transform [simp]:
  "transform (drawPitchIndicator subs self p) = transform p"
  by (simp add: drawPitchIndicator_def Let_def fold_transform)

lemma drawAircraftSymbol_transform [simp]:
  "transform (drawAircraftSymbol self p) = transform p"
  by (simp add: drawAircraftSymbol_def Let_def draw_defs)

lemma airspeed_tick_transform [simp]: "transform (airspeed_tick self bw i p) = transform p"
  by (simp add: airspeed_tick_def Let_def draw_defs)

lemma airspeed_command_transform [simp]:
  "transform (airspeed_command subs self bw bh p) = transform p"
  by (simp add: airspeed_command_def Let_def draw_defs)

lemma drawAirspeedIndicator_transform [simp]:
  "transform (drawAirspeedIndicator subs self p) = transform p"
  by (simp add: drawAirspeedIndicator_def Let_def draw_defs fold_transform)

lemma altitude_tick_transform [simp]: "transform (altitude_tick self bw i p) = transform p"
  by (simp add: altitude_tick_def Let_def draw_defs)

lemma altitude_command_transform [simp]:
  "transform (altitude_command subs self bw bh p) = transform p"
  by (simp add: altitude_command_def Let_def draw_defs)

lemma drawAltitudeIndicator_transform [simp]:
  "transform (drawAltitudeIndicator subs self p) = transform p"
  by (simp add: drawAltitudeIndicator_def Let_def draw_defs fold_transform)

lemma heading_tick_transform [simp]: "transform (heading_tick self bh i p) = transform p"
  by (simp add: heading_tick_def Let_def draw_defs)

lemma drawHeadingIndicator_transform [simp]:
  "transform (drawHeadingIndicator self p) = transform p"
  by (simp add: drawHeadingIndicator_def Let_def draw_defs fold_transform)

lemma drawNumSatellites_transform [simp]:
  "transform (drawNumSatellites self p) = transform p"
  by (simp add: drawNumSatellites_def Let_def draw_defs)

lemma drawBatteryMonitor_transform [simp]:
  "transform (drawBatteryMonitor subs self p) = transform p"
  by (simp add: drawBatteryMonitor_def Let_def draw_defs)

lemma drawNumSatellites_last:
  "e_call (last (calls (drawNumSatellites self p))) =
     DrawTextRect
       (QRectF_pts (QPoint 0 0)
          (QPoint (real_of_int (width self) * 0.25) (real_of_int (height self) * 0.1)))
       AlignCenter (Str (''GPS: '' @ str_int (numSat self) @ '' satellites''))"
  by (simp add: drawNumSatellites_def draw_defs Let_def)

lemma frame_ops_cancel:
  "translate (- a) (- b) (rotate_deg r (translate a b
     (translate 0 (- t) (translate 0 t (translate (- a) (- b)
        (rotate_deg (- r) (translate a b p))))))) = p"
  by (simp add: translate_def rotate_deg_def)

lemma even_half_neg:
  assumes "even (w :: int)"
  shows "real_of_int (- w div 2) = - real_of_int (w div 2)"
proof -
  from assms have "- w div 2 = - (w div 2)"
    by presburger
  then show ?thesis
    by simp
qed

lemma render_transform_even:
  "even (width self) \<Longrightarrow> even (height self) \<Longrightarrow>
   transform (render subs self p) = transform p"
  by (simp add: render_def Let_def drawOutputIndicator_def even_half_neg)

lemma render_transform:
  "transform (render subs self p) =
     tf_translate (real_of_int (- width self div 2)) (real_of_int (- height self div 2))
       (tf_rotate (real_of_int (roll self))
          (tf_translate (real_of_int (width self div 2) + real_of_int (- width self div 2))
                        (real_of_int (height self div 2) + real_of_int (- height self div 2))
             (tf_rotate (- real_of_int (roll self))
                (tf_translate (real_of_int (width self div 2)) (real_of_int (height self div 2))
                   (transform p)))))"
  by (simp add: render_def Let_def drawOutputIndicator_def)

lemma drawNumSatellites_last_transform:
  "e_transform (last (calls (drawNumSatellites self q))) = transform q"
  by (simp add: drawNumSatellites_def draw_defs Let_def)

lemma render_last_transform:
  "\<not> BatterySub_enabled subs \<Longrightarrow>
   e_transform (last (calls (render subs self p))) = transform (render subs self p)"
  by (simp add: render_def Let_def drawOutputIndicator_def drawBatteryMonitor_def
        drawNumSatellites_last_transform)

lemma render_last_call:
  "\<not> BatterySub_enabled subs \<Longrightarrow>
   e_call (last (calls (render subs self p))) =
     DrawTextRect
       (QRectF_pts (QPoint 0 0)
          (QPoint (real_of_int (width self) * 0.25) (real_of_int (height self) * 0.1)))
       AlignCenter (Str (''GPS: '' @ str_int (numSat self) @ '' satellites''))"
  by (simp add: render_def Let_def drawOutputIndicator_def drawBatteryMonitor_def
        drawNumSatellites_last)

text \<open>
  C1. Leaving the roll and pitch frame should undo entering it. The operations are paired
  as the claim says, and they cancel whenever the two translations are each other's
  negatives (\<open>frame_ops_cancel\<close>), which is so for an even width and height
  (\<open>render_transform_even\<close>). For an odd size they are not: \<^verbatim>\<open>self.width / 2\<close> and
  \<^verbatim>\<open>-self.width / 2\<close> are floor divisions of integers, 300 and -301 at a width of 601.
  After a resize to 601 by 600, in level flight (roll 0, pitch 0), the redraw that starts
  from the identity transform ends two pixels to the left of it, and the fixed overlays
  are drawn in the shifted frame: the satellite text, the last call, carries that
  transform.
\<close>

theorem frame_shifted_at_odd_width:
  "transform (snd (paintEvent level_flight (resizeEvent 601 600 initUI)))
     = identity_transform\<lparr>m_dx := - 2\<rparr>
   \<and> transform new_painter = identity_transform
   \<and> e_transform (last (calls (snd (paintEvent level_flight (resizeEvent 601 600 initUI)))))
     = identity_transform\<lparr>m_dx := - 2\<rparr>
   \<and> e_call (last (calls (snd (paintEvent level_flight (resizeEvent 601 600 initUI)))))
     = DrawTextRect (QRectF_pts (QPoint 0 0) (QPoint (601 * 0.25) 60)) AlignCenter
         (Str ''GPS: 6 satellites'')"
proof -
  have s: "read_subscribers level_flight (resizeEvent 601 600 initUI)
      = \<lparr>height = 600, width = 601, roll = 0, pitch = 0, speed = 120, altitude = 1500,
         heading = 270, numSat = 6, pitchInterval = 0.013\<rparr>"
    by (simp add: read_subscribers_def level_flight_def resizeEvent_def initUI_def)
  have t: "transform (snd (paintEvent level_flight (resizeEvent 601 600 initUI)))
     = identity_transform\<lparr>m_dx := - 2\<rparr>"
    by (simp add: paintEvent_def drawArtificialHorizon_def Let_def s render_transform
          new_painter_def identity_transform_def tf_translate_def tf_rotate_def)
  have b: "\<not> BatterySub_enabled level_flight"
    by (simp add: level_flight_def)
  have r: "snd (paintEvent level_flight (resizeEvent 601 600 initUI))
      = render level_flight (read_subscribers level_flight (resizeEvent 601 600 initUI))
          new_painter"
    by (simp add: paintEvent_def drawArtificialHorizon_def Let_def)
  have l: "e_transform (last (calls (snd (paintEvent level_flight (resizeEvent 601 600 initUI)))))
     = identity_transform\<lparr>m_dx := - 2\<rparr>"
    using t render_last_transform [OF b] by (simp add: r)
  have c: "e_call (last (calls (snd (paintEvent level_flight (resizeEvent 601 600 initUI)))))
     = DrawTextRect (QRectF_pts (QPoint 0 0) (QPoint (601 * 0.25) 60)) AlignCenter
         (Str ''GPS: 6 satellites'')"
    unfolding r render_last_call [OF b] by (simp add: s str_defs)
  have n: "transform new_painter = identity_transform"
    by (simp add: new_painter_def)
  from t n l c show ?thesis by blast
qed

subsection \<open>The satellite count\<close>

text \<open>
  C7. The satellite text is the one call \<open>drawNumSatellites\<close> issues, and the pen it is
  drawn with is red exactly when the count is below 4 and green exactly when the count is
  4 or more; a count of 3 is drawn red and a count of 4 green.
\<close>

theorem drawNumSatellites_color:
  "calls (drawNumSatellites self p) =
     calls p @
     [\<lparr>e_transform = transform p,
       e_pen = QPen3 (if numSat self < 4 then Qt_red else Qt_green) 2 SolidLine,
       e_brush = brush p,
       e_call = DrawTextRect
         (QRectF_pts (QPoint 0 0)
            (QPoint (real_of_int (width self) * 0.25) (real_of_int (height self) * 0.1)))
         AlignCenter (Str (''GPS: '' @ str_int (numSat self) @ '' satellites''))\<rparr>]
   \<and> (pen_color (e_pen (last (calls (drawNumSatellites self p)))) = Qt_red
        \<longleftrightarrow> numSat self < 4)
   \<and> (pen_color (e_pen (last (calls (drawNumSatellites self p)))) = Qt_green
        \<longleftrightarrow> 4 \<le> numSat self)
   \<and> pen_color (e_pen (last (calls (drawNumSatellites (self\<lparr>numSat := 3\<rparr>) p)))) = Qt_red
   \<and> pen_color (e_pen (last (calls (drawNumSatellites (self\<lparr>numSat := 4\<rparr>) p)))) = Qt_green"
  by (simp add: drawNumSatellites_def draw_defs Let_def stamp_def QPen3_def)

subsection \<open>The output indicator\<close>

text \<open>
  C9. \<open>drawOutputIndicator\<close> returns the painter it was given: it issues no drawing call
  and leaves pen, brush and world transform as they were. It stands in the redraw between
  the satellite text and the battery monitor, so when the battery is disabled the last
  call of the redraw is the satellite text.
\<close>

theorem drawOutputIndicator_draws_nothing:
  "drawOutputIndicator self p = p
   \<and> calls (drawOutputIndicator self p) = calls p
   \<and> pen (drawOutputIndicator self p) = pen p
   \<and> brush (drawOutputIndicator self p) = brush p
   \<and> transform (drawOutputIndicator self p) = transform p
   \<and> (\<not> BatterySub_enabled subs \<longrightarrow>
        e_call (last (calls (render subs self p))) =
          DrawTextRect
            (QRectF_pts (QPoint 0 0)
               (QPoint (real_of_int (width self) * 0.25) (real_of_int (height self) * 0.1)))
            AlignCenter (Str (''GPS: '' @ str_int (numSat self) @ '' satellites'')))"
  by (simp add: drawOutputIndicator_def render_def Let_def drawBatteryMonitor_def
        drawNumSatellites_last)

theorem drawOutputIndicator_draws_nothing_witness:
  "\<not> BatterySub_enabled level_flight
   \<and> drawOutputIndicator initUI new_painter = new_painter
   \<and> e_call (last (calls (render level_flight initUI new_painter))) =
       DrawTextRect (QRectF_pts (QPoint 0 0) (QPoint 150 60)) AlignCenter
         (Str ''GPS: 0 satellites'')"
  using drawOutputIndicator_draws_nothing [of initUI new_painter level_flight]
  by (simp add: level_flight_def initUI_def str_defs)

subsection \<open>The tapes in closed form\<close>

lemma stamp_calls_update [simp]: "stamp (p\<lparr>calls := cs\<rparr>) = stamp p"
  by (simp add: fun_eq_iff stamp_def)

lemma fold_emits:
  assumes step: "\<And>i p. f i p = p\<lparr>calls := calls p @ h i p\<rparr>"
      and frame: "\<And>i p cs. h i (p\<lparr>calls := cs\<rparr>) = h i p"
  shows "fold f xs p = p\<lparr>calls := calls p @ concat (map (\<lambda>i. h i p) xs)\<rparr>"
proof (induction xs arbitrary: p)
  case Nil
  show ?case by simp
next
  case (Cons x xs)
  have "fold f (x # xs) p = fold f xs (f x p)" by simp
  also have "\<dots> = (f x p)\<lparr>calls := calls (f x p) @ concat (map (\<lambda>i. h i (f x p)) xs)\<rparr>"
    by (rule Cons.IH)
  also have "\<dots> = p\<lparr>calls := calls p @ concat (map (\<lambda>i. h i p) (x # xs))\<rparr>"
    by (simp add: step frame)
  finally show ?case .
qed

lemma directions_mult10:
  "v mod 10 = 0 \<Longrightarrow>
   directions v = (if v = 0 then Some ''N'' else if v = 90 then Some ''E''
                   else if v = 180 then Some ''S'' else if v = 270 then Some ''W'' else None)"
  by (auto simp: directions_def)

lemma wrap_360: "(if i < 0 then i + 360 else i) mod 360 = i mod (360::int)"
  by simp

lemma mod_360_10: "(i mod 360) mod 10 = i mod (10::int)"
  by (simp add: mod_mod_cancel)

lemma heading_tick_emits:
  "heading_tick self bh i p =
     p\<lparr>calls := calls p @ map (stamp p)
        (if i mod 10 = 0 then
           [DrawLine (real_of_int (width self) * 0.5
                        - real_of_int (heading self - i) * 0.01 * real_of_int (width self))
                     (real_of_int (height self) - bh)
                     (real_of_int (width self) * 0.5
                        - real_of_int (heading self - i) * 0.01 * real_of_int (width self))
                     (real_of_int (height self) - bh + 5),
            DrawText (QPoint (real_of_int (width self) * 0.5
                        - real_of_int (heading self - i) * 0.01 * real_of_int (width self)
                        + 7 - real_of_int (8 * len
                           (case directions (i mod 360) of Some d \<Rightarrow> d
                            | None \<Rightarrow> str_int (i mod 360))))
                       (real_of_int (height self) - bh + 22))
              (Str (case directions (i mod 360) of Some d \<Rightarrow> d
                    | None \<Rightarrow> str_int (i mod 360)))]
         else [])\<rparr>"
  by (simp add: heading_tick_def Let_def draw_defs emit_def cong: option.case_cong)


lemma heading_loop:
  "fold (heading_tick self bh) xs p =
     p\<lparr>calls := calls p @ map (stamp p) (concat (map (\<lambda>i.
        if i mod 10 = 0 then
           [DrawLine (real_of_int (width self) * 0.5
                        - real_of_int (heading self - i) * 0.01 * real_of_int (width self))
                     (real_of_int (height self) - bh)
                     (real_of_int (width self) * 0.5
                        - real_of_int (heading self - i) * 0.01 * real_of_int (width self))
                     (real_of_int (height self) - bh + 5),
            DrawText (QPoint (real_of_int (width self) * 0.5
                        - real_of_int (heading self - i) * 0.01 * real_of_int (width self)
                        + 7 - real_of_int (8 * len
                           (case directions (i mod 360) of Some d \<Rightarrow> d
                            | None \<Rightarrow> str_int (i mod 360))))
                       (real_of_int (height self) - bh + 22))
              (Str (case directions (i mod 360) of Some d \<Rightarrow> d
                    | None \<Rightarrow> str_int (i mod 360)))]
         else []) xs))\<rparr>"
  by (subst fold_emits [where f = "heading_tick self bh", OF heading_tick_emits])
     (simp_all add: map_concat comp_def)

lemma airspeed_tick_emits:
  "airspeed_tick self bw i p =
     p\<lparr>calls := calls p @ map (stamp p)
        (if i mod 10 = 0 \<and> 0 \<le> i then
           [DrawLine (bw - 5)
                     (real_of_int (height self) * 0.5
                        + real_of_int (speed self - i) * 0.01 * real_of_int (height self))
                     bw
                     (real_of_int (height self) * 0.5
                        + real_of_int (speed self - i) * 0.01 * real_of_int (height self)),
            DrawText (QPoint (bw - 10 - real_of_int (8 * len (str_int i)))
                       (real_of_int (height self) * 0.5
                        + real_of_int (speed self - i) * 0.01 * real_of_int (height self) + 5))
              (Str (str_int i))]
         else [])\<rparr>"
  by (simp add: airspeed_tick_def Let_def draw_defs emit_def)

lemma airspeed_loop:
  "fold (airspeed_tick self bw) xs p =
     p\<lparr>calls := calls p @ map (stamp p) (concat (map (\<lambda>i.
        if i mod 10 = 0 \<and> 0 \<le> i then
           [DrawLine (bw - 5)
                     (real_of_int (height self) * 0.5
                        + real_of_int (speed self - i) * 0.01 * real_of_int (height self))
                     bw
                     (real_of_int (height self) * 0.5
                        + real_of_int (speed self - i) * 0.01 * real_of_int (height self)),
            DrawText (QPoint (bw - 10 - real_of_int (8 * len (str_int i)))
                       (real_of_int (height self) * 0.5
                        + real_of_int (speed self - i) * 0.01 * real_of_int (height self) + 5))
              (Str (str_int i))]
         else []) xs))\<rparr>"
  by (subst fold_emits [where f = "airspeed_tick self bw", OF airspeed_tick_emits])
     (simp_all add: map_concat comp_def)

lemma altitude_tick_emits:
  "altitude_tick self bw i p =
     p\<lparr>calls := calls p @ map (stamp p)
        (if i mod 10 = 0 then
           [DrawLine (real_of_int (width self) - bw)
                     (real_of_int (height self) * 0.5
                        + real_of_int (altitude self - i) * 0.01 * real_of_int (height self))
                     (real_of_int (width self) - bw + 5)
                     (real_of_int (height self) * 0.5
                        + real_of_int (altitude self - i) * 0.01 * real_of_int (height self)),
            DrawText (QPoint (real_of_int (width self) - bw + 10)
                       (real_of_int (height self) * 0.5
                        + real_of_int (altitude self - i) * 0.01 * real_of_int (height self) + 5))
              (Str (str_int i))]
         else [])\<rparr>"
  by (simp add: altitude_tick_def Let_def draw_defs emit_def)

lemma altitude_loop:
  "fold (altitude_tick self bw) xs p =
     p\<lparr>calls := calls p @ map (stamp p) (concat (map (\<lambda>i.
        if i mod 10 = 0 then
           [DrawLine (real_of_int (width self) - bw)
                     (real_of_int (height self) * 0.5
                        + real_of_int (altitude self - i) * 0.01 * real_of_int (height self))
                     (real_of_int (width self) - bw + 5)
                     (real_of_int (height self) * 0.5
                        + real_of_int (altitude self - i) * 0.01 * real_of_int (height self)),
            DrawText (QPoint (real_of_int (width self) - bw + 10)
                       (real_of_int (height self) * 0.5
                        + real_of_int (altitude self - i) * 0.01 * real_of_int (height self) + 5))
              (Str (str_int i))]
         else []) xs))\<rparr>"
  by (subst fold_emits [where f = "altitude_tick self bw", OF altitude_tick_emits])
     (simp_all add: map_concat comp_def)


lemma issued_append:
  "calls (f p) = calls p @ es \<Longrightarrow> issued f p = map e_call es"
  by (simp add: issued_def)

lemma airspeed_command_emits:
  "airspeed_command subs self bw bh p =
     p\<lparr>calls := calls p @ map (stamp p)
        (if ConComSub_enabled subs
            \<and> (real_of_int (height self) - bh) / 2
                  \<le> real_of_int (height self) * 0.5
                     + (real_of_int (speed self) - ConComSub_Va_c subs) * 0.01
                        * real_of_int (height self)
            \<and> real_of_int (height self) * 0.5
                  + (real_of_int (speed self) - ConComSub_Va_c subs) * 0.01
                     * real_of_int (height self)
                  \<le> (real_of_int (height self) + bh) / 2
         then [DrawConvexPolygon
                 [QPoint bw (real_of_int (height self) * 0.5
                     + (real_of_int (speed self) - ConComSub_Va_c subs) * 0.01
                        * real_of_int (height self)),
                  QPoint (bw + real_of_int (width self) * 0.02)
                     (real_of_int (height self) * 0.01 + (real_of_int (height self) * 0.5
                     + (real_of_int (speed self) - ConComSub_Va_c subs) * 0.01
                        * real_of_int (height self))),
                  QPoint (bw + real_of_int (width self) * 0.02)
                     (- (real_of_int (height self) * 0.01) + (real_of_int (height self) * 0.5
                     + (real_of_int (speed self) - ConComSub_Va_c subs) * 0.01
                        * real_of_int (height self)))]]
         else [])\<rparr>"
  by (simp add: airspeed_command_def Let_def draw_defs emit_def)

lemma filter_ticks:
  assumes "\<And>i. P (A i)" and "\<And>i. \<not> P (B i)"
  shows "filter P (concat (map (\<lambda>i. if c i then [A i, B i] else []) xs)) = map A (filter c xs)"
  by (induction xs) (simp_all add: assms)

lemma filter_labels:
  assumes "\<And>i. \<not> P (A i)" and "\<And>i. P (B i)"
  shows "filter P (concat (map (\<lambda>i. if c i then [A i, B i] else []) xs)) = map B (filter c xs)"
  by (induction xs) (simp_all add: assms)

lemma filter_none:
  assumes "\<And>i. \<not> P (A i)" and "\<And>i. \<not> P (B i)"
  shows "filter P (concat (map (\<lambda>i. if c i then [A i, B i] else []) xs)) = []"
  by (induction xs) (simp_all add: assms)

lemma drawAirspeedIndicator_issued:
  "issued (drawAirspeedIndicator subs self) p =
     (let W = real_of_int (width self); H = real_of_int (height self);
          boxWidth = W * 0.13; boxHeight = H * 0.6;
          y = (\<lambda>i. H * 0.5 + real_of_int (speed self - i) * 0.01 * H);
          va_c_y = H * 0.5 + (real_of_int (speed self) - ConComSub_Va_c subs) * 0.01 * H
      in [FillRect (QRectF 0 ((H - boxHeight) / 2) boxWidth boxHeight)
            (QBrush1 (QColor 100 100 100 200))]
         @ concat (map (\<lambda>i. if i mod 10 = 0 \<and> 0 \<le> i
                          then [DrawLine (boxWidth - 5) (y i) boxWidth (y i),
                                DrawText (QPoint (boxWidth - 10 - real_of_int (8 * len (str_int i)))
                                            (y i + 5)) (Str (str_int i))]
                          else [])
                     (range_py (speed self - 29) (speed self + 29)))
         @ (if ConComSub_enabled subs \<and> (H - boxHeight) / 2 \<le> va_c_y
                \<and> va_c_y \<le> (H + boxHeight) / 2
            then [DrawConvexPolygon
                    [QPoint boxWidth va_c_y,
                     QPoint (boxWidth + W * 0.02) (H * 0.01 + va_c_y),
                     QPoint (boxWidth + W * 0.02) (- (H * 0.01) + va_c_y)]]
            else [])
         @ [DrawPolygon [QPoint 0 (H * 0.46), QPoint (boxWidth * 0.9) (H * 0.46),
                         QPoint boxWidth (H * 0.5), QPoint (boxWidth * 0.9) (H * 0.54),
                         QPoint 0 (H * 0.54)],
            DrawTextRect (QRectF_pts (QPoint 0 (H * 0.46)) (QPoint (boxWidth * 0.9) (H * 0.54)))
              AlignCenter (Str (str_int (speed self) @ '' m/s'')),
            DrawText (QPoint 5 ((H - boxHeight) / 2 - 5)) (Str ''Airspeed (m/s IAS)'')])"
  by (simp add: issued_def drawAirspeedIndicator_def Let_def draw_defs airspeed_loop
        airspeed_command_emits comp_def del: fold.simps cong: if_cong)


lemma altitude_command_emits:
  "altitude_command subs self bw bh p =
     p\<lparr>calls := calls p @ map (stamp p)
        (if ConComSub_enabled subs
            \<and> (real_of_int (height self) - bh) / 2
                  \<le> real_of_int (height self) * 0.5
                     + (real_of_int (altitude self) - ConComSub_h_c subs) * 0.01
                        * real_of_int (height self)
            \<and> real_of_int (height self) * 0.5
                  + (real_of_int (altitude self) - ConComSub_h_c subs) * 0.01
                     * real_of_int (height self)
                  \<le> (real_of_int (height self) + bh) / 2
         then [DrawConvexPolygon
                 [QPoint (real_of_int (width self) - bw) (real_of_int (height self) * 0.5
                     + (real_of_int (altitude self) - ConComSub_h_c subs) * 0.01
                        * real_of_int (height self)),
                  QPoint (real_of_int (width self) - bw - real_of_int (width self) * 0.02)
                     (real_of_int (height self) * 0.01 + (real_of_int (height self) * 0.5
                     + (real_of_int (altitude self) - ConComSub_h_c subs) * 0.01
                        * real_of_int (height self))),
                  QPoint (real_of_int (width self) - bw - real_of_int (width self) * 0.02)
                     (- (real_of_int (height self) * 0.01) + (real_of_int (height self) * 0.5
                     + (real_of_int (altitude self) - ConComSub_h_c subs) * 0.01
                        * real_of_int (height self)))]]
         else [])\<rparr>"
  by (simp add: altitude_command_def Let_def draw_defs emit_def)

lemma drawAltitudeIndicator_issued:
  "issued (drawAltitudeIndicator subs self) p =
     (let W = real_of_int (width self); H = real_of_int (height self);
          boxWidth = W * 0.13; boxHeight = H * 0.6;
          y = (\<lambda>i. H * 0.5 + real_of_int (altitude self - i) * 0.01 * H);
          alt_c_y = H * 0.5 + (real_of_int (altitude self) - ConComSub_h_c subs) * 0.01 * H
      in [FillRect (QRectF (W - boxWidth) ((H - boxHeight) / 2) boxWidth boxHeight)
            (QBrush1 (QColor 100 100 100 200))]
         @ concat (map (\<lambda>i. if i mod 10 = 0
                          then [DrawLine (W - boxWidth) (y i) (W - boxWidth + 5) (y i),
                                DrawText (QPoint (W - boxWidth + 10) (y i + 5)) (Str (str_int i))]
                          else [])
                     (range_py (altitude self - 29) (altitude self + 29)))
         @ (if ConComSub_enabled subs \<and> (H - boxHeight) / 2 \<le> alt_c_y
                \<and> alt_c_y \<le> (H + boxHeight) / 2
            then [DrawConvexPolygon
                    [QPoint (W - boxWidth) alt_c_y,
                     QPoint (W - boxWidth - W * 0.02) (H * 0.01 + alt_c_y),
                     QPoint (W - boxWidth - W * 0.02) (- (H * 0.01) + alt_c_y)]]
            else [])
         @ [DrawPolygon [QPoint W (H * 0.46), QPoint (W - boxWidth * 0.9) (H * 0.46),
                         QPoint (W - boxWidth) (H * 0.5), QPoint (W - boxWidth * 0.9) (H * 0.54),
                         QPoint W (H * 0.54)],
            DrawTextRect (QRectF_pts (QPoint W (H * 0.46)) (QPoint (W - boxWidth * 0.9) (H * 0.54)))
              AlignCenter (Str (str_int (altitude self) @ '' m'')),
            DrawText (QPoint (W - boxWidth + 5) ((H - boxHeight) / 2 - 5)) (Str ''Altitude'')])"
  by (simp add: issued_def drawAltitudeIndicator_def Let_def draw_defs altitude_loop
        altitude_command_emits comp_def del: fold.simps cong: if_cong)

lemma drawHeadingIndicator_issued:
  "issued (drawHeadingIndicator self) p =
     (let W = real_of_int (width self); H = real_of_int (height self);
          boxHeight = H * 0.1;
          x = (\<lambda>i. W * 0.5 - real_of_int (heading self - i) * 0.01 * W);
          text = (\<lambda>i. case directions (i mod 360) of Some d \<Rightarrow> d
                         | None \<Rightarrow> str_int (i mod 360))
      in [FillRect (QRectF ((W - W * 1.0) / 2) (H - boxHeight) (W * 1.0) boxHeight)
            (QBrush1 (QColor 100 100 100 200))]
         @ concat (map (\<lambda>i. if i mod 10 = 0
                          then [DrawLine (x i) (H - boxHeight) (x i) (H - boxHeight + 5),
                                DrawText (QPoint (x i + 7 - real_of_int (8 * len (text i)))
                                            (H - boxHeight + 22)) (Str (text i))]
                          else [])
                     (range_py (heading self - 49) (heading self + 49)))
         @ [DrawPolygon [QPoint (W * 0.46) H, QPoint (W * 0.46) (H - boxHeight * 0.9),
                         QPoint (W * 0.50) (H - boxHeight), QPoint (W * 0.54) (H - boxHeight * 0.9),
                         QPoint (W * 0.54) H],
            DrawTextRect (QRectF_pts (QPoint (W * 0.46) H) (QPoint (W * 0.54) (H - boxHeight * 0.9)))
              AlignCenter (Str (str_int (heading self) @ DEGREE_SIGN))])"
  by (simp add: issued_def drawHeadingIndicator_def Let_def draw_defs heading_loop
        comp_def del: fold.simps cong: if_cong)

lemma tape_lines_airspeed:
  "filter is_DrawLine (issued (drawAirspeedIndicator subs self) p) =
     map (\<lambda>i. DrawLine (real_of_int (width self) * 0.13 - 5)
                 (real_of_int (height self) * 0.5
                    + real_of_int (speed self - i) * 0.01 * real_of_int (height self))
                 (real_of_int (width self) * 0.13)
                 (real_of_int (height self) * 0.5
                    + real_of_int (speed self - i) * 0.01 * real_of_int (height self)))
       (filter (\<lambda>i. i mod 10 = 0 \<and> 0 \<le> i) [speed self - 29..speed self + 28])"
  by (simp add: drawAirspeedIndicator_issued Let_def filter_ticks range_py_def add.commute)

lemma tape_lines_altitude:
  "filter is_DrawLine (issued (drawAltitudeIndicator subs self) p) =
     map (\<lambda>i. DrawLine (real_of_int (width self) - real_of_int (width self) * 0.13)
                 (real_of_int (height self) * 0.5
                    + real_of_int (altitude self - i) * 0.01 * real_of_int (height self))
                 (real_of_int (width self) - real_of_int (width self) * 0.13 + 5)
                 (real_of_int (height self) * 0.5
                    + real_of_int (altitude self - i) * 0.01 * real_of_int (height self)))
       (filter (\<lambda>i. i mod 10 = 0) [altitude self - 29..altitude self + 28])"
  by (simp add: drawAltitudeIndicator_issued Let_def filter_ticks range_py_def add.commute)

lemma tape_lines_heading:
  "filter is_DrawLine (issued (drawHeadingIndicator self) p) =
     map (\<lambda>i. DrawLine (real_of_int (width self) * 0.5
                    - real_of_int (heading self - i) * 0.01 * real_of_int (width self))
                 (real_of_int (height self) - real_of_int (height self) * 0.1)
                 (real_of_int (width self) * 0.5
                    - real_of_int (heading self - i) * 0.01 * real_of_int (width self))
                 (real_of_int (height self) - real_of_int (height self) * 0.1 + 5))
       (filter (\<lambda>i. i mod 10 = 0) [heading self - 49..heading self + 48])"
  by (simp add: drawHeadingIndicator_issued Let_def filter_ticks range_py_def add.commute)

lemma tape_labels_heading:
  "filter is_DrawText (issued (drawHeadingIndicator self) p) =
     map (\<lambda>i. DrawText
                 (QPoint (real_of_int (width self) * 0.5
                    - real_of_int (heading self - i) * 0.01 * real_of_int (width self)
                    + 7 - real_of_int (8 * len
                        (case directions (i mod 360) of Some d \<Rightarrow> d
                         | None \<Rightarrow> str_int (i mod 360))))
                   (real_of_int (height self) - real_of_int (height self) * 0.1 + 22))
                 (Str (case directions (i mod 360) of Some d \<Rightarrow> d
                       | None \<Rightarrow> str_int (i mod 360))))
       (filter (\<lambda>i. i mod 10 = 0) (range_py (heading self - 49) (heading self + 49)))"
  by (simp add: drawHeadingIndicator_issued Let_def filter_labels)

subsection \<open>The tape windows\<close>

text \<open>
  C3. The tapes at a current value of 1, on the 600 by 600 widget. The speed tape draws
  ticks and labels for 0, 10 and 20, the altitude tape for -20 to 20, the heading tape for
  -40 to 40 (labelled 320 to 350, N, 10 to 40). The candidate 30 on the speed and altitude
  tapes and the candidate 50 on the heading tape, which lie 29 and 49 above the current
  value, get no tick: \<^verbatim>\<open>range\<close> leaves its upper bound out, so the windows are
  \<open>[v - 29, v + 28]\<close> and \<open>[v - 49, v + 48]\<close> (lemmas \<open>tape_lines_airspeed\<close>,
  \<open>tape_lines_altitude\<close>, \<open>tape_lines_heading\<close>). Speed candidates below zero are
  left out, altitude candidates below zero are drawn.
\<close>

theorem tape_windows_at_one:
  "filter is_DrawLine (issued (drawAirspeedIndicator level_flight (initUI\<lparr>speed := 1\<rparr>)) new_painter)
     = [DrawLine 73 306 78 306, DrawLine 73 246 78 246, DrawLine 73 186 78 186]
   \<and> filter is_DrawText (issued (drawAirspeedIndicator level_flight (initUI\<lparr>speed := 1\<rparr>)) new_painter)
     = [DrawText (QPoint 60 311) (Str ''0''), DrawText (QPoint 52 251) (Str ''10''),
        DrawText (QPoint 52 191) (Str ''20''),
        DrawText (QPoint 5 115) (Str ''Airspeed (m/s IAS)'')]
   \<and> filter is_DrawLine (issued (drawAltitudeIndicator level_flight (initUI\<lparr>altitude := 1\<rparr>)) new_painter)
     = [DrawLine 522 426 527 426, DrawLine 522 366 527 366, DrawLine 522 306 527 306,
        DrawLine 522 246 527 246, DrawLine 522 186 527 186]
   \<and> filter is_DrawLine (issued (drawHeadingIndicator (initUI\<lparr>heading := 1\<rparr>)) new_painter)
     = [DrawLine 54 540 54 545, DrawLine 114 540 114 545, DrawLine 174 540 174 545,
        DrawLine 234 540 234 545, DrawLine 294 540 294 545, DrawLine 354 540 354 545,
        DrawLine 414 540 414 545, DrawLine 474 540 474 545, DrawLine 534 540 534 545]
   \<and> filter is_DrawText (issued (drawHeadingIndicator (initUI\<lparr>heading := 1\<rparr>)) new_painter)
     = [DrawText (QPoint 37 562) (Str ''320''), DrawText (QPoint 97 562) (Str ''330''),
        DrawText (QPoint 157 562) (Str ''340''), DrawText (QPoint 217 562) (Str ''350''),
        DrawText (QPoint 293 562) (Str ''N''), DrawText (QPoint 345 562) (Str ''10''),
        DrawText (QPoint 405 562) (Str ''20''), DrawText (QPoint 465 562) (Str ''30''),
        DrawText (QPoint 525 562) (Str ''40'')]"
proof -
  have a: "filter is_DrawLine (issued (drawAirspeedIndicator level_flight (initUI\<lparr>speed := 1\<rparr>)) new_painter)
     = [DrawLine 73 306 78 306, DrawLine 73 246 78 246, DrawLine 73 186 78 186]"
    by (simp add: tape_lines_airspeed initUI_def upto_rec1)
  have b: "filter is_DrawText (issued (drawAirspeedIndicator level_flight (initUI\<lparr>speed := 1\<rparr>)) new_painter)
     = [DrawText (QPoint 60 311) (Str ''0''), DrawText (QPoint 52 251) (Str ''10''),
        DrawText (QPoint 52 191) (Str ''20''),
        DrawText (QPoint 5 115) (Str ''Airspeed (m/s IAS)'')]"
    by (simp add: drawAirspeedIndicator_issued Let_def filter_labels range_py_def initUI_def
          upto_rec1 str_defs len_def)
  have c: "filter is_DrawLine (issued (drawAltitudeIndicator level_flight (initUI\<lparr>altitude := 1\<rparr>)) new_painter)
     = [DrawLine 522 426 527 426, DrawLine 522 366 527 366, DrawLine 522 306 527 306,
        DrawLine 522 246 527 246, DrawLine 522 186 527 186]"
    by (simp add: tape_lines_altitude initUI_def upto_rec1)
  have d: "filter is_DrawLine (issued (drawHeadingIndicator (initUI\<lparr>heading := 1\<rparr>)) new_painter)
     = [DrawLine 54 540 54 545, DrawLine 114 540 114 545, DrawLine 174 540 174 545,
        DrawLine 234 540 234 545, DrawLine 294 540 294 545, DrawLine 354 540 354 545,
        DrawLine 414 540 414 545, DrawLine 474 540 474 545, DrawLine 534 540 534 545]"
    by (simp add: tape_lines_heading initUI_def upto_rec1)
  have e: "filter is_DrawText (issued (drawHeadingIndicator (initUI\<lparr>heading := 1\<rparr>)) new_painter)
     = [DrawText (QPoint 37 562) (Str ''320''), DrawText (QPoint 97 562) (Str ''330''),
        DrawText (QPoint 157 562) (Str ''340''), DrawText (QPoint 217 562) (Str ''350''),
        DrawText (QPoint 293 562) (Str ''N''), DrawText (QPoint 345 562) (Str ''10''),
        DrawText (QPoint 405 562) (Str ''20''), DrawText (QPoint 465 562) (Str ''30''),
        DrawText (QPoint 525 562) (Str ''40'')]"
    by (simp add: tape_labels_heading range_py_def initUI_def upto_rec1 str_defs len_def
          directions_def)
  from a b c d e show ?thesis by blast
qed

subsection \<open>The commanded speed and altitude markers\<close>

text \<open>
  C6. The only convex polygon the speed tape (the altitude tape) issues is the command
  triangle, and it is issued exactly when the command source is enabled and the mapped
  coordinate \<open>height * 0.5 + (current - commanded) * 0.01 * height\<close> lies between
  \<open>(height - boxHeight) / 2\<close> and \<open>(height + boxHeight) / 2\<close>, both ends included;
  the triangle sits at that coordinate itself. On either edge it is drawn, outside the
  extent nothing is drawn, and with the source disabled nothing is drawn.
\<close>

theorem command_marker_inclusive:
  "(let W = real_of_int (width self); H = real_of_int (height self);
        boxWidth = W * 0.13; boxHeight = H * 0.6;
        va_c_y = H * 0.5 + (real_of_int (speed self) - ConComSub_Va_c subs) * 0.01 * H;
        alt_c_y = H * 0.5 + (real_of_int (altitude self) - ConComSub_h_c subs) * 0.01 * H;
        speed_marker = filter is_DrawConvexPolygon (issued (drawAirspeedIndicator subs self) p);
        speed_triangle = DrawConvexPolygon
           [QPoint boxWidth va_c_y, QPoint (boxWidth + W * 0.02) (H * 0.01 + va_c_y),
            QPoint (boxWidth + W * 0.02) (- (H * 0.01) + va_c_y)];
        altitude_marker =
          filter is_DrawConvexPolygon (issued (drawAltitudeIndicator subs self) p);
        altitude_triangle = DrawConvexPolygon
           [QPoint (W - boxWidth) alt_c_y, QPoint (W - boxWidth - W * 0.02) (H * 0.01 + alt_c_y),
            QPoint (W - boxWidth - W * 0.02) (- (H * 0.01) + alt_c_y)]
    in speed_marker =
         (if ConComSub_enabled subs \<and> (H - boxHeight) / 2 \<le> va_c_y
             \<and> va_c_y \<le> (H + boxHeight) / 2
          then [speed_triangle] else [])
     \<and> altitude_marker =
         (if ConComSub_enabled subs \<and> (H - boxHeight) / 2 \<le> alt_c_y
             \<and> alt_c_y \<le> (H + boxHeight) / 2
          then [altitude_triangle] else [])
     \<and> (ConComSub_enabled subs \<and> 0 \<le> H
          \<and> (va_c_y = (H - boxHeight) / 2 \<or> va_c_y = (H + boxHeight) / 2)
          \<longrightarrow> speed_marker = [speed_triangle])
     \<and> (ConComSub_enabled subs \<and> 0 \<le> H
          \<and> (alt_c_y = (H - boxHeight) / 2 \<or> alt_c_y = (H + boxHeight) / 2)
          \<longrightarrow> altitude_marker = [altitude_triangle])
     \<and> (va_c_y < (H - boxHeight) / 2 \<or> (H + boxHeight) / 2 < va_c_y
          \<longrightarrow> speed_marker = [])
     \<and> (alt_c_y < (H - boxHeight) / 2 \<or> (H + boxHeight) / 2 < alt_c_y
          \<longrightarrow> altitude_marker = [])
     \<and> (\<not> ConComSub_enabled subs \<longrightarrow> speed_marker = [] \<and> altitude_marker = []))"
proof -
  have s: "filter is_DrawConvexPolygon (issued (drawAirspeedIndicator subs self) p) =
     (let W = real_of_int (width self); H = real_of_int (height self);
          boxWidth = W * 0.13; boxHeight = H * 0.6;
          va_c_y = H * 0.5 + (real_of_int (speed self) - ConComSub_Va_c subs) * 0.01 * H
      in if ConComSub_enabled subs \<and> (H - boxHeight) / 2 \<le> va_c_y
             \<and> va_c_y \<le> (H + boxHeight) / 2
         then [DrawConvexPolygon
           [QPoint boxWidth va_c_y, QPoint (boxWidth + W * 0.02) (H * 0.01 + va_c_y),
            QPoint (boxWidth + W * 0.02) (- (H * 0.01) + va_c_y)]] else [])"
    by (simp add: drawAirspeedIndicator_issued Let_def filter_none)
  have a: "filter is_DrawConvexPolygon (issued (drawAltitudeIndicator subs self) p) =
     (let W = real_of_int (width self); H = real_of_int (height self);
          boxWidth = W * 0.13; boxHeight = H * 0.6;
          alt_c_y = H * 0.5 + (real_of_int (altitude self) - ConComSub_h_c subs) * 0.01 * H
      in if ConComSub_enabled subs \<and> (H - boxHeight) / 2 \<le> alt_c_y
             \<and> alt_c_y \<le> (H + boxHeight) / 2
         then [DrawConvexPolygon
           [QPoint (W - boxWidth) alt_c_y, QPoint (W - boxWidth - W * 0.02) (H * 0.01 + alt_c_y),
            QPoint (W - boxWidth - W * 0.02) (- (H * 0.01) + alt_c_y)]] else [])"
    by (simp add: drawAltitudeIndicator_issued Let_def filter_none)
  show ?thesis
    unfolding s a Let_def by auto
qed

theorem command_marker_inclusive_witness:
  "ConComSub_enabled (level_flight\<lparr>ConComSub_enabled := True, ConComSub_Va_c := 30,
       ConComSub_h_c := - 30\<rparr>)
   \<and> filter is_DrawConvexPolygon
        (issued (drawAirspeedIndicator
           (level_flight\<lparr>ConComSub_enabled := True, ConComSub_Va_c := 30, ConComSub_h_c := - 30\<rparr>)
           initUI) new_painter)
       = [DrawConvexPolygon [QPoint 78 120, QPoint 90 126, QPoint 90 114]]
   \<and> filter is_DrawConvexPolygon
        (issued (drawAltitudeIndicator
           (level_flight\<lparr>ConComSub_enabled := True, ConComSub_Va_c := 30, ConComSub_h_c := - 30\<rparr>)
           initUI) new_painter)
       = [DrawConvexPolygon [QPoint 522 480, QPoint 510 486, QPoint 510 474]]"
  using command_marker_inclusive [of initUI
      "level_flight\<lparr>ConComSub_enabled := True, ConComSub_Va_c := 30, ConComSub_h_c := - 30\<rparr>"
      new_painter]
  by (simp add: Let_def initUI_def level_flight_def)

subsection \<open>The heading labels\<close>

lemma compass_text:
  "i mod 10 = 0 \<Longrightarrow>
   (case directions (i mod 360) of Some d \<Rightarrow> d | None \<Rightarrow> str_int (i mod 360)) =
   (if i mod 360 = 0 then ''N'' else if i mod 360 = 90 then ''E''
    else if i mod 360 = 180 then ''S'' else if i mod 360 = 270 then ''W''
    else str_int (i mod 360))"
  using directions_mult10 [of "i mod 360"] by (simp add: mod_360_10)

text \<open>
  What the tape labels. The heading tape draws a label only for a candidate that is a
  multiple of 10. For such a candidate, with \<open>v\<close> its value modulo 360, the label is
  \<open>N\<close>, \<open>E\<close>, \<open>S\<close> or \<open>W\<close> when \<open>v\<close> is 0, 90, 180 or 270, and the number \<open>v\<close>
  otherwise.
\<close>

lemma heading_compass_labels:
  "filter is_DrawText (issued (drawHeadingIndicator self) p) =
     map (\<lambda>i. let W = real_of_int (width self); H = real_of_int (height self);
                  x = W * 0.5 - real_of_int (heading self - i) * 0.01 * W;
                  y = H - H * 0.1;
                  v = i mod 360;
                  text = (if v = 0 then ''N'' else if v = 90 then ''E''
                          else if v = 180 then ''S'' else if v = 270 then ''W''
                          else str_int v)
              in DrawText (QPoint (x + 7 - real_of_int (8 * len text)) (y + 22)) (Str text))
       (filter (\<lambda>i. i mod 10 = 0) (range_py (heading self - 49) (heading self + 49)))"
  unfolding tape_labels_heading
  by (rule map_cong) (simp_all add: compass_text Let_def)

text \<open>
  C2. The dictionary of the tape has the eight compass points, but the labels at 45, 135,
  225 and 315 never appear. At heading 225 the ten labels of the tape run from \<open>S\<close>
  (180) to \<open>W\<close> (270) with no \<open>SW\<close> between them; the candidate 225 (and, at heading
  45, the candidate 45) gets neither tick nor label, since only multiples of 10 are drawn;
  and the dictionary has no entry for 225: its \<open>SW\<close> stands at 215.
\<close>

theorem heading_compass_at_225:
  "filter is_DrawText (issued (drawHeadingIndicator (initUI\<lparr>heading := 225\<rparr>)) new_painter)
     = [DrawText (QPoint 29 562) (Str ''S''), DrawText (QPoint 73 562) (Str ''190''),
        DrawText (QPoint 133 562) (Str ''200''), DrawText (QPoint 193 562) (Str ''210''),
        DrawText (QPoint 253 562) (Str ''220''), DrawText (QPoint 313 562) (Str ''230''),
        DrawText (QPoint 373 562) (Str ''240''), DrawText (QPoint 433 562) (Str ''250''),
        DrawText (QPoint 493 562) (Str ''260''), DrawText (QPoint 569 562) (Str ''W'')]
   \<and> issued (heading_tick (initUI\<lparr>heading := 225\<rparr>) 60 225) new_painter = []
   \<and> issued (heading_tick (initUI\<lparr>heading := 45\<rparr>) 60 45) new_painter = []
   \<and> directions 225 = None
   \<and> directions 215 = Some ''SW''"
proof -
  have a: "filter is_DrawText (issued (drawHeadingIndicator (initUI\<lparr>heading := 225\<rparr>)) new_painter)
     = [DrawText (QPoint 29 562) (Str ''S''), DrawText (QPoint 73 562) (Str ''190''),
        DrawText (QPoint 133 562) (Str ''200''), DrawText (QPoint 193 562) (Str ''210''),
        DrawText (QPoint 253 562) (Str ''220''), DrawText (QPoint 313 562) (Str ''230''),
        DrawText (QPoint 373 562) (Str ''240''), DrawText (QPoint 433 562) (Str ''250''),
        DrawText (QPoint 493 562) (Str ''260''), DrawText (QPoint 569 562) (Str ''W'')]"
    by (simp add: tape_labels_heading range_py_def initUI_def upto_rec1 str_defs len_def
          directions_def)
  have b: "issued (heading_tick (initUI\<lparr>heading := 225\<rparr>) 60 225) new_painter = []"
    by (simp add: issued_def heading_tick_def)
  have c: "issued (heading_tick (initUI\<lparr>heading := 45\<rparr>) 60 45) new_painter = []"
    by (simp add: issued_def heading_tick_def)
  have d: "directions 225 = None \<and> directions 215 = Some ''SW''"
    by (simp add: directions_def)
  from a b c d show ?thesis by blast
qed

subsection \<open>The heading tick positions\<close>

text \<open>
  C10, as the code has it. For a candidate \<open>i\<close> that is a multiple of 10 the tick is
  drawn at \<open>x = width * 0.5 - (heading - i) * 0.01 * width\<close>, computed from \<open>i\<close>
  itself; the label is the text for \<open>i mod 360\<close> and is drawn at
  \<open>x + 7 - 8 * len text\<close>. The candidate \<open>i + 360\<close> gets the same text, with tick and
  label 3.6 widths further right: wrapping never moves the tick, and it moves the label
  only through the length of the wrapped text.
\<close>

theorem heading_tick_position:
  "(let W = real_of_int (width self); H = real_of_int (height self);
        x = W * 0.5 - real_of_int (heading self - i) * 0.01 * W;
        y = H - boxHeight;
        text = (case directions (i mod 360) of Some d \<Rightarrow> d | None \<Rightarrow> str_int (i mod 360));
        tick = (if i mod 10 = 0
                then [DrawLine x y x (y + 5),
                      DrawText (QPoint (x + 7 - real_of_int (8 * len text)) (y + 22)) (Str text)]
                else []);
        tick_360 = (if i mod 10 = 0
                then [DrawLine (x + 3.6 * W) y (x + 3.6 * W) (y + 5),
                      DrawText (QPoint (x + 3.6 * W + 7 - real_of_int (8 * len text)) (y + 22))
                        (Str text)]
                else [])
    in issued (heading_tick self boxHeight i) p = tick
     \<and> issued (heading_tick self boxHeight (i + 360)) p = tick_360)"
proof -
  define X where "X = (\<lambda>j. real_of_int (width self) * 0.5
      - real_of_int (heading self - j) * 0.01 * real_of_int (width self))"
  define T where "T = (\<lambda>j. case directions (j mod 360) of Some d \<Rightarrow> d
      | None \<Rightarrow> str_int (j mod 360))"
  define Y where "Y = real_of_int (height self) - boxHeight"
  have e: "issued (heading_tick self boxHeight j) p =
      (if j mod 10 = 0
       then [DrawLine (X j) Y (X j) (Y + 5),
             DrawText (QPoint (X j + 7 - real_of_int (8 * len (T j))) (Y + 22)) (Str (T j))]
       else [])" for j
    by (simp add: issued_def heading_tick_emits X_def T_def Y_def)
  have m10: "(i + 360) mod 10 = i mod 10"
    by presburger
  have t: "T (i + 360) = T i"
    by (simp add: T_def cong: option.case_cong)
  have x: "X (i + 360) = X i + 3.6 * real_of_int (width self)"
    by (simp add: X_def field_simps)
  have "issued (heading_tick self boxHeight (i + 360)) p =
      (if i mod 10 = 0
       then [DrawLine (X i + 3.6 * real_of_int (width self)) Y
               (X i + 3.6 * real_of_int (width self)) (Y + 5),
             DrawText (QPoint (X i + 3.6 * real_of_int (width self) + 7
                                 - real_of_int (8 * len (T i))) (Y + 22)) (Str (T i))]
       else [])"
    unfolding e m10 t x ..
  with e [of i] show ?thesis
    unfolding Let_def X_def T_def Y_def by simp
qed

text \<open>
  The claim as stated fails: at heading 359 the candidate 370 is labelled \<open>10\<close>, drawn
  at \<open>x = 357\<close>; with the unwrapped text \<open>370\<close> the same formula gives 349.
\<close>

theorem heading_label_position_counterexample:
  "issued (heading_tick (initUI\<lparr>heading := 359\<rparr>) 60 370) new_painter
     = [DrawLine 366 540 366 545, DrawText (QPoint 357 562) (Str ''10'')]
   \<and> (366 :: real) + 7 - real_of_int (8 * len (str_int 370)) = 349"
  by (simp add: issued_def heading_tick_emits initUI_def directions_def str_defs len_def)

subsection \<open>The pitch ladder in closed form\<close>

lemma pitch_marker_emits:
  "pitch_marker self i p =
     p\<lparr>calls := calls p @ map (stamp p)
        ((if minHeight self < 0.5 - pitchInterval self * 10 * real_of_int i
             \<and> 0.5 - pitchInterval self * 10 * real_of_int i < maxHeight self
          then [DrawLine (real_of_int (width self) * 0.4)
                  (real_of_int (height self) * (0.5 - pitchInterval self * 10 * real_of_int i))
                  (real_of_int (width self) * 0.6)
                  (real_of_int (height self) * (0.5 - pitchInterval self * 10 * real_of_int i)),
                DrawText (QPoint (real_of_int (width self) * 0.6 + 5)
                  (real_of_int (height self) * (0.5 - pitchInterval self * 10 * real_of_int i) + 5))
                  (Str (str_int (10 * \<bar>i\<bar>))),
                DrawText (QPoint (real_of_int (width self) * 0.4 - 22)
                  (real_of_int (height self) * (0.5 - pitchInterval self * 10 * real_of_int i) + 5))
                  (Str (str_int (10 * \<bar>i\<bar>)))]
          else [])
         @ (if minHeight self < 0.5 - pitchInterval self * 10 * real_of_int i
                  - pitchInterval self * 5
             \<and> 0.5 - pitchInterval self * 10 * real_of_int i - pitchInterval self * 5
                  < maxHeight self
            then [DrawLine (real_of_int (width self) * 0.45)
                    (real_of_int (height self)
                       * (0.5 - pitchInterval self * 10 * real_of_int i - pitchInterval self * 5))
                    (real_of_int (width self) * 0.55)
                    (real_of_int (height self)
                       * (0.5 - pitchInterval self * 10 * real_of_int i - pitchInterval self * 5))]
            else []))\<rparr>"
  by (simp add: pitch_marker_def Let_def draw_defs emit_def)

lemma pitch_loop:
  "fold (pitch_marker self) xs p =
     p\<lparr>calls := calls p @ map (stamp p) (concat (map (\<lambda>i.
        (if minHeight self < 0.5 - pitchInterval self * 10 * real_of_int i
             \<and> 0.5 - pitchInterval self * 10 * real_of_int i < maxHeight self
          then [DrawLine (real_of_int (width self) * 0.4)
                  (real_of_int (height self) * (0.5 - pitchInterval self * 10 * real_of_int i))
                  (real_of_int (width self) * 0.6)
                  (real_of_int (height self) * (0.5 - pitchInterval self * 10 * real_of_int i)),
                DrawText (QPoint (real_of_int (width self) * 0.6 + 5)
                  (real_of_int (height self) * (0.5 - pitchInterval self * 10 * real_of_int i) + 5))
                  (Str (str_int (10 * \<bar>i\<bar>))),
                DrawText (QPoint (real_of_int (width self) * 0.4 - 22)
                  (real_of_int (height self) * (0.5 - pitchInterval self * 10 * real_of_int i) + 5))
                  (Str (str_int (10 * \<bar>i\<bar>)))]
          else [])
         @ (if minHeight self < 0.5 - pitchInterval self * 10 * real_of_int i
                  - pitchInterval self * 5
             \<and> 0.5 - pitchInterval self * 10 * real_of_int i - pitchInterval self * 5
                  < maxHeight self
            then [DrawLine (real_of_int (width self) * 0.45)
                    (real_of_int (height self)
                       * (0.5 - pitchInterval self * 10 * real_of_int i - pitchInterval self * 5))
                    (real_of_int (width self) * 0.55)
                    (real_of_int (height self)
                       * (0.5 - pitchInterval self * 10 * real_of_int i - pitchInterval self * 5))]
            else [])) xs))\<rparr>"
  by (subst fold_emits [where f = "pitch_marker self", OF pitch_marker_emits])
     (simp_all add: map_concat comp_def)

lemma pitch_command_emits:
  "pitch_command subs self p =
     (if ConInSub_enabled subs then
        p\<lparr>pen := QPen4 Qt_white 2 SolidLine RoundCap,
          calls := calls p @ map (stamp (setPen (QPen4 Qt_yellow 4 SolidLine RoundCap) p))
            (if minHeight self < 0.5 - pitchInterval self * degrees (ConInSub_theta_c subs)
                \<and> 0.5 - pitchInterval self * degrees (ConInSub_theta_c subs) < maxHeight self
             then [DrawLine (real_of_int (width self) * 0.4)
                     (real_of_int (height self)
                        * (0.5 - pitchInterval self * degrees (ConInSub_theta_c subs)))
                     (real_of_int (width self) * 0.6)
                     (real_of_int (height self)
                        * (0.5 - pitchInterval self * degrees (ConInSub_theta_c subs))),
                   DrawText (QPoint (real_of_int (width self) * 0.6 + 5)
                     (real_of_int (height self)
                        * (0.5 - pitchInterval self * degrees (ConInSub_theta_c subs)) + 5))
                     (Str ''<''),
                   DrawText (QPoint (real_of_int (width self) * 0.4 - 22)
                     (real_of_int (height self)
                        * (0.5 - pitchInterval self * degrees (ConInSub_theta_c subs)) + 5))
                     (Str ''>'')]
             else [])\<rparr>
      else p)"
  by (simp add: pitch_command_def Let_def draw_defs emit_def setPen_def stamp_def)

lemma drawPitchIndicator_issued:
  "issued (drawPitchIndicator subs self) p =
     (let W = real_of_int (width self); H = real_of_int (height self);
          major = (\<lambda>i. 0.5 - pitchInterval self * 10 * real_of_int i);
          sub = (\<lambda>i. 0.5 - pitchInterval self * 10 * real_of_int i - pitchInterval self * 5);
          cmd = 0.5 - pitchInterval self * degrees (ConInSub_theta_c subs)
      in concat (map (\<lambda>i.
           (if minHeight self < major i \<and> major i < maxHeight self
            then [DrawLine (W * 0.4) (H * major i) (W * 0.6) (H * major i),
                  DrawText (QPoint (W * 0.6 + 5) (H * major i + 5)) (Str (str_int (10 * \<bar>i\<bar>))),
                  DrawText (QPoint (W * 0.4 - 22) (H * major i + 5)) (Str (str_int (10 * \<bar>i\<bar>)))]
            else [])
           @ (if minHeight self < sub i \<and> sub i < maxHeight self
              then [DrawLine (W * 0.45) (H * sub i) (W * 0.55) (H * sub i)]
              else []))
           (range_py (- 9) 9))
         @ (if ConInSub_enabled subs \<and> minHeight self < cmd \<and> cmd < maxHeight self
            then [DrawLine (W * 0.4) (H * cmd) (W * 0.6) (H * cmd),
                  DrawText (QPoint (W * 0.6 + 5) (H * cmd + 5)) (Str ''<''),
                  DrawText (QPoint (W * 0.4 - 22) (H * cmd + 5)) (Str ''>'')]
            else []))"
  by (simp add: issued_def drawPitchIndicator_def Let_def pitch_loop pitch_command_emits
        comp_def del: fold.simps cong: if_cong)

subsection \<open>The pitch ladder's range\<close>

text \<open>
  C4. The pitch ladder at a pitch of 70 degrees on the 600 by 600 widget. The major lines
  span 0.4 to 0.6 of the width (240 to 360) at height fraction \<open>0.5 - pitchInterval * 10 * i\<close>
  and the sub-markers 0.45 to 0.55 (270 to 330); the ladder draws the majors for 50, 60, 70
  and 80 degrees and the sub-markers for 45 to 85. The major line for +90 degrees
  (\<open>i = 9\<close>) would pass the visibility test, yet it is not drawn:
  \<^verbatim>\<open>range(-9, 9)\<close> ends at \<open>i = 8\<close>, so the majors run from -90 to +80.
\<close>

theorem pitch_ladder_at_70:
  "issued (drawPitchIndicator level_flight (initUI\<lparr>pitch := 70\<rparr>)) new_painter =
     [DrawLine 270 (- 51) 330 (- 51),
      DrawLine 240 (- 90) 360 (- 90),
      DrawText (QPoint 365 (- 85)) (Str ''50''), DrawText (QPoint 218 (- 85)) (Str ''50''),
      DrawLine 270 (- 129) 330 (- 129),
      DrawLine 240 (- 168) 360 (- 168),
      DrawText (QPoint 365 (- 163)) (Str ''60''), DrawText (QPoint 218 (- 163)) (Str ''60''),
      DrawLine 270 (- 207) 330 (- 207),
      DrawLine 240 (- 246) 360 (- 246),
      DrawText (QPoint 365 (- 241)) (Str ''70''), DrawText (QPoint 218 (- 241)) (Str ''70''),
      DrawLine 270 (- 285) 330 (- 285),
      DrawLine 240 (- 324) 360 (- 324),
      DrawText (QPoint 365 (- 319)) (Str ''80''), DrawText (QPoint 218 (- 319)) (Str ''80''),
      DrawLine 270 (- 363) 330 (- 363)]
   \<and> minHeight (initUI\<lparr>pitch := 70\<rparr>) < 0.5 - pitchInterval (initUI\<lparr>pitch := 70\<rparr>) * 10 * 9
   \<and> 0.5 - pitchInterval (initUI\<lparr>pitch := 70\<rparr>) * 10 * 9 < maxHeight (initUI\<lparr>pitch := 70\<rparr>)"
  by (simp add: drawPitchIndicator_issued Let_def range_py_def upto_rec1 initUI_def
        level_flight_def minHeight_def maxHeight_def str_defs)

subsection \<open>The visibility window of the pitch ladder\<close>

text \<open>
  C5. With \<open>lo = 0.15 - pitch * pitchInterval\<close> and \<open>hi = 0.85 - pitch * pitchInterval\<close>,
  the loop body draws the major marker for \<open>i\<close> exactly when \<open>lo < major < hi\<close> and
  the sub-marker exactly when \<open>lo < sub < hi\<close>; the command block draws its marker
  exactly when the command source is enabled and \<open>lo < cmd < hi\<close>; and the pitch
  indicator issues the loop body's calls for \<open>i = -9, ..., 8\<close> followed by the command
  block's. A marker whose height fraction equals \<open>lo\<close> or \<open>hi\<close> is not drawn.
\<close>

theorem pitch_marker_strict_window:
  "(let W = real_of_int (width self); H = real_of_int (height self);
        lo = minHeight self; hi = maxHeight self;
        major = 0.5 - pitchInterval self * 10 * real_of_int i;
        sub = major - pitchInterval self * 5;
        cmd = 0.5 - pitchInterval self * degrees (ConInSub_theta_c subs);
        major_calls =
          [DrawLine (W * 0.4) (H * major) (W * 0.6) (H * major),
           DrawText (QPoint (W * 0.6 + 5) (H * major + 5)) (Str (str_int (10 * \<bar>i\<bar>))),
           DrawText (QPoint (W * 0.4 - 22) (H * major + 5)) (Str (str_int (10 * \<bar>i\<bar>)))];
        sub_calls = [DrawLine (W * 0.45) (H * sub) (W * 0.55) (H * sub)];
        cmd_calls =
          [DrawLine (W * 0.4) (H * cmd) (W * 0.6) (H * cmd),
           DrawText (QPoint (W * 0.6 + 5) (H * cmd + 5)) (Str ''<''),
           DrawText (QPoint (W * 0.4 - 22) (H * cmd + 5)) (Str ''>'')]
    in lo = 0.15 - real_of_int (pitch self) * pitchInterval self
     \<and> hi = 0.85 - real_of_int (pitch self) * pitchInterval self
     \<and> issued (pitch_marker self i) p =
         (if lo < major \<and> major < hi then major_calls else [])
         @ (if lo < sub \<and> sub < hi then sub_calls else [])
     \<and> issued (pitch_command subs self) p =
         (if ConInSub_enabled subs \<and> lo < cmd \<and> cmd < hi then cmd_calls else [])
     \<and> issued (drawPitchIndicator subs self) p =
         concat (map (\<lambda>j. issued (pitch_marker self j) p) (range_py (- 9) 9))
         @ issued (pitch_command subs self) p
     \<and> (major = lo \<or> major = hi \<longrightarrow>
          issued (pitch_marker self i) p = (if lo < sub \<and> sub < hi then sub_calls else []))
     \<and> (sub = lo \<or> sub = hi \<longrightarrow>
          issued (pitch_marker self i) p = (if lo < major \<and> major < hi then major_calls else []))
     \<and> (cmd = lo \<or> cmd = hi \<longrightarrow> issued (pitch_command subs self) p = []))"
proof -
  have m: "issued (pitch_marker self j) p =
      (if minHeight self < 0.5 - pitchInterval self * 10 * real_of_int j
           \<and> 0.5 - pitchInterval self * 10 * real_of_int j < maxHeight self
       then [DrawLine (real_of_int (width self) * 0.4)
               (real_of_int (height self) * (0.5 - pitchInterval self * 10 * real_of_int j))
               (real_of_int (width self) * 0.6)
               (real_of_int (height self) * (0.5 - pitchInterval self * 10 * real_of_int j)),
             DrawText (QPoint (real_of_int (width self) * 0.6 + 5)
               (real_of_int (height self) * (0.5 - pitchInterval self * 10 * real_of_int j) + 5))
               (Str (str_int (10 * \<bar>j\<bar>))),
             DrawText (QPoint (real_of_int (width self) * 0.4 - 22)
               (real_of_int (height self) * (0.5 - pitchInterval self * 10 * real_of_int j) + 5))
               (Str (str_int (10 * \<bar>j\<bar>)))]
       else [])
      @ (if minHeight self < 0.5 - pitchInterval self * 10 * real_of_int j
               - pitchInterval self * 5
          \<and> 0.5 - pitchInterval self * 10 * real_of_int j - pitchInterval self * 5
               < maxHeight self
         then [DrawLine (real_of_int (width self) * 0.45)
                 (real_of_int (height self)
                    * (0.5 - pitchInterval self * 10 * real_of_int j - pitchInterval self * 5))
                 (real_of_int (width self) * 0.55)
                 (real_of_int (height self)
                    * (0.5 - pitchInterval self * 10 * real_of_int j - pitchInterval self * 5))]
         else [])" for j
    by (simp add: issued_def pitch_marker_emits)
  have c: "issued (pitch_command subs self) p =
      (if ConInSub_enabled subs
           \<and> minHeight self < 0.5 - pitchInterval self * degrees (ConInSub_theta_c subs)
           \<and> 0.5 - pitchInterval self * degrees (ConInSub_theta_c subs) < maxHeight self
       then [DrawLine (real_of_int (width self) * 0.4)
               (real_of_int (height self)
                  * (0.5 - pitchInterval self * degrees (ConInSub_theta_c subs)))
               (real_of_int (width self) * 0.6)
               (real_of_int (height self)
                  * (0.5 - pitchInterval self * degrees (ConInSub_theta_c subs))),
             DrawText (QPoint (real_of_int (width self) * 0.6 + 5)
               (real_of_int (height self)
                  * (0.5 - pitchInterval self * degrees (ConInSub_theta_c subs)) + 5))
               (Str ''<''),
             DrawText (QPoint (real_of_int (width self) * 0.4 - 22)
               (real_of_int (height self)
                  * (0.5 - pitchInterval self * degrees (ConInSub_theta_c subs)) + 5))
               (Str ''>'')]
       else [])"
    by (simp add: issued_def pitch_command_emits)
  have d: "issued (drawPitchIndicator subs self) p =
         concat (map (\<lambda>j. issued (pitch_marker self j) p) (range_py (- 9) 9))
         @ issued (pitch_command subs self) p"
    unfolding m c drawPitchIndicator_issued Let_def by simp
  show ?thesis
    unfolding Let_def d
    by (simp add: m c minHeight_def maxHeight_def)
qed


theorem pitch_marker_strict_window_witness:
  "0.5 - pitchInterval initUI
       * degrees (ConInSub_theta_c (level_flight\<lparr>ConInSub_enabled := True,
                     ConInSub_theta_c := 350 / 13 * (pi / 180)\<rparr>))
     = minHeight initUI
   \<and> issued (pitch_command (level_flight\<lparr>ConInSub_enabled := True,
                 ConInSub_theta_c := 350 / 13 * (pi / 180)\<rparr>) initUI) new_painter = []
   \<and> 0.5 - pitchInterval (initUI\<lparr>pitchInterval := 0.035\<rparr>) * 10 * real_of_int 1
     = minHeight (initUI\<lparr>pitchInterval := 0.035\<rparr>)
   \<and> issued (pitch_marker (initUI\<lparr>pitchInterval := 0.035\<rparr>) 1) new_painter = []
   \<and> 0.5 - pitchInterval (initUI\<lparr>pitchInterval := 7 / 300\<rparr>) * 10 * real_of_int 1
         - pitchInterval (initUI\<lparr>pitchInterval := 7 / 300\<rparr>) * 5
     = minHeight (initUI\<lparr>pitchInterval := 7 / 300\<rparr>)
   \<and> issued (pitch_marker (initUI\<lparr>pitchInterval := 7 / 300\<rparr>) 1) new_painter
     = [DrawLine 240 160 360 160, DrawText (QPoint 365 165) (Str ''10''),
        DrawText (QPoint 218 165) (Str ''10'')]"
  using
    pitch_marker_strict_window [where self = initUI and i = 0 and p = new_painter
      and subs = "level_flight\<lparr>ConInSub_enabled := True,
                    ConInSub_theta_c := 350 / 13 * (pi / 180)\<rparr>"]
    pitch_marker_strict_window [where self = "initUI\<lparr>pitchInterval := 0.035\<rparr>" and i = 1
      and p = new_painter and subs = level_flight]
    pitch_marker_strict_window [where self = "initUI\<lparr>pitchInterval := 7 / 300\<rparr>" and i = 1
      and p = new_painter and subs = level_flight]
  by (simp add: Let_def initUI_def level_flight_def degrees_def minHeight_def maxHeight_def
        str_defs)

subsection \<open>Disabled channels\<close>

lemma sim_emit:
  "keeps K \<Longrightarrow> \<not> is_DrawConvexPolygon c \<Longrightarrow> sim K q q' \<Longrightarrow> sim K (emit c q) (emit c q')"
  by (simp add: sim_def keeps_def emit_def stamp_def)

lemma sim_setPen:
  "x \<noteq> command_pen \<Longrightarrow> sim K q q' \<Longrightarrow> sim K (setPen x q) (setPen x q')"
  by (simp add: sim_def)

lemma sim_setBrush: "sim K q q' \<Longrightarrow> sim K (setBrush b q) (setBrush b q')"
  by (simp add: sim_def)

lemma sim_translate: "sim K q q' \<Longrightarrow> sim K (translate x y q) (translate x y q')"
  by (simp add: sim_def)

lemma sim_rotate_deg: "sim K q q' \<Longrightarrow> sim K (rotate_deg a q) (rotate_deg a q')"
  by (simp add: sim_def)

lemma sim_if:
  "(c \<Longrightarrow> sim K a a') \<Longrightarrow> (\<not> c \<Longrightarrow> sim K b b') \<Longrightarrow>
   sim K (if c then a else b) (if c then a' else b')"
  by simp

lemma sim_fold:
  assumes "\<And>i q q'. sim K q q' \<Longrightarrow> sim K (f i q) (f i q')"
  shows "sim K q q' \<Longrightarrow> sim K (fold f xs q) (fold f xs q')"
  by (induction xs arbitrary: q q') (simp_all add: assms)

lemmas sim_prims = sim_emit sim_setPen sim_setBrush sim_translate sim_rotate_deg sim_if

lemma pens_not_command [simp]:
  "QPen3 c w s \<noteq> command_pen"
  "QPen1 c \<noteq> command_pen"
  "QPen4 Qt_white w s k \<noteq> command_pen"
  "QPen4 (QColor r g b a) w s k \<noteq> command_pen"
  by (simp_all add: QPen3_def QPen1_def QPen4_def command_pen_def)

lemma sim_drawSky: "keeps K \<Longrightarrow> sim K q q' \<Longrightarrow> sim K (drawSky self q) (drawSky self q')"
  unfolding drawSky_def Let_def draw_defs by (intro sim_prims) simp_all

lemma sim_drawGround:
  "keeps K \<Longrightarrow> sim K q q' \<Longrightarrow> sim K (drawGround self q) (drawGround self q')"
  unfolding drawGround_def Let_def draw_defs by (intro sim_prims) simp_all

lemma sim_pitch_marker:
  "keeps K \<Longrightarrow> sim K q q' \<Longrightarrow> sim K (pitch_marker self i q) (pitch_marker self i q')"
  unfolding pitch_marker_def Let_def draw_defs by (intro sim_prims) simp_all

lemma sim_turn_tick:
  "keeps K \<Longrightarrow> sim K q q' \<Longrightarrow>
   sim K (turn_tick xC yC x y x2 y2 x3 y3 a q) (turn_tick xC yC x y x2 y2 x3 y3 a q')"
  unfolding turn_tick_def Let_def draw_defs by (intro sim_prims) simp_all

lemma sim_drawTurnIndicator:
  "keeps K \<Longrightarrow> sim K q q' \<Longrightarrow> sim K (drawTurnIndicator self q) (drawTurnIndicator self q')"
  unfolding drawTurnIndicator_def Let_def draw_defs
  by (intro sim_prims sim_fold sim_turn_tick) simp_all

lemma sim_drawAircraftSymbol:
  "keeps K \<Longrightarrow> sim K q q' \<Longrightarrow> sim K (drawAircraftSymbol self q) (drawAircraftSymbol self q')"
  unfolding drawAircraftSymbol_def Let_def draw_defs by (intro sim_prims) simp_all

lemma sim_airspeed_tick:
  "keeps K \<Longrightarrow> sim K q q' \<Longrightarrow> sim K (airspeed_tick self bw i q) (airspeed_tick self bw i q')"
  unfolding airspeed_tick_def Let_def draw_defs by (intro sim_prims) simp_all

lemma sim_altitude_tick:
  "keeps K \<Longrightarrow> sim K q q' \<Longrightarrow> sim K (altitude_tick self bw i q) (altitude_tick self bw i q')"
  unfolding altitude_tick_def Let_def draw_defs by (intro sim_prims) simp_all

lemma sim_heading_tick:
  "keeps K \<Longrightarrow> sim K q q' \<Longrightarrow> sim K (heading_tick self bh i q) (heading_tick self bh i q')"
  unfolding heading_tick_def Let_def draw_defs by (intro sim_prims) simp_all

lemma sim_drawHeadingIndicator:
  "keeps K \<Longrightarrow> sim K q q' \<Longrightarrow>
   sim K (drawHeadingIndicator self q) (drawHeadingIndicator self q')"
  unfolding drawHeadingIndicator_def Let_def draw_defs
  by (intro sim_prims sim_fold sim_heading_tick) simp_all

lemma sim_drawNumSatellites:
  "keeps K \<Longrightarrow> sim K q q' \<Longrightarrow> sim K (drawNumSatellites self q) (drawNumSatellites self q')"
  unfolding drawNumSatellites_def Let_def draw_defs by (intro sim_prims) simp_all

lemma sim_drawBatteryMonitor:
  "keeps K \<Longrightarrow> sim K q q' \<Longrightarrow>
   sim K (drawBatteryMonitor subs self q) (drawBatteryMonitor subs self q')"
  unfolding drawBatteryMonitor_def Let_def draw_defs by (intro sim_prims) simp_all


lemma keeps_not_convex: "keeps (\<lambda>e. \<not> is_DrawConvexPolygon (e_call e))"
  by (simp add: keeps_def)

lemma keeps_not_command_pen: "keeps (\<lambda>e. e_pen e \<noteq> command_pen)"
  by (simp add: keeps_def)

lemma pitch_command_other_fields [simp]:
  "pitch_command (subs\<lparr>ConComSub_enabled := b\<rparr>) = pitch_command subs"
  "pitch_command (subs\<lparr>BatterySub_enabled := b\<rparr>) = pitch_command subs"
  by (simp_all add: pitch_command_def fun_eq_iff)

lemma airspeed_command_other_fields [simp]:
  "airspeed_command (subs\<lparr>ConInSub_enabled := b\<rparr>) = airspeed_command subs"
  "airspeed_command (subs\<lparr>BatterySub_enabled := b\<rparr>) = airspeed_command subs"
  by (simp_all add: airspeed_command_def fun_eq_iff)

lemma altitude_command_other_fields [simp]:
  "altitude_command (subs\<lparr>ConInSub_enabled := b\<rparr>) = altitude_command subs"
  "altitude_command (subs\<lparr>BatterySub_enabled := b\<rparr>) = altitude_command subs"
  by (simp_all add: altitude_command_def fun_eq_iff)

lemma drawBatteryMonitor_other_fields [simp]:
  "drawBatteryMonitor (subs\<lparr>ConComSub_enabled := b\<rparr>) = drawBatteryMonitor subs"
  "drawBatteryMonitor (subs\<lparr>ConInSub_enabled := b\<rparr>) = drawBatteryMonitor subs"
  by (simp_all add: drawBatteryMonitor_def fun_eq_iff)

lemma read_subscribers_flags [simp]:
  "read_subscribers (subs\<lparr>ConComSub_enabled := b\<rparr>) = read_subscribers subs"
  "read_subscribers (subs\<lparr>ConInSub_enabled := b\<rparr>) = read_subscribers subs"
  "read_subscribers (subs\<lparr>BatterySub_enabled := b\<rparr>) = read_subscribers subs"
  by (simp_all add: read_subscribers_def fun_eq_iff)

lemma sim_convex_airspeed_command:
  "sim (\<lambda>e. \<not> is_DrawConvexPolygon (e_call e)) q q' \<Longrightarrow>
   sim (\<lambda>e. \<not> is_DrawConvexPolygon (e_call e))
     (airspeed_command (subs\<lparr>ConComSub_enabled := False\<rparr>) self bw bh q)
     (airspeed_command subs self bw bh q')"
  by (simp add: sim_def airspeed_command_def Let_def draw_defs)

lemma sim_convex_altitude_command:
  "sim (\<lambda>e. \<not> is_DrawConvexPolygon (e_call e)) q q' \<Longrightarrow>
   sim (\<lambda>e. \<not> is_DrawConvexPolygon (e_call e))
     (altitude_command (subs\<lparr>ConComSub_enabled := False\<rparr>) self bw bh q)
     (altitude_command subs self bw bh q')"
  by (simp add: sim_def altitude_command_def Let_def draw_defs)

lemma sim_convex_pitch_command:
  "sim (\<lambda>e. \<not> is_DrawConvexPolygon (e_call e)) q q' \<Longrightarrow>
   sim (\<lambda>e. \<not> is_DrawConvexPolygon (e_call e))
     (pitch_command subs self q) (pitch_command subs self q')"
  by (simp add: sim_def pitch_command_def Let_def draw_defs)

lemma sim_pen_airspeed_command:
  "sim (\<lambda>e. e_pen e \<noteq> command_pen) q q' \<Longrightarrow>
   sim (\<lambda>e. e_pen e \<noteq> command_pen)
     (airspeed_command subs self bw bh q) (airspeed_command subs self bw bh q')"
  by (simp add: sim_def airspeed_command_def Let_def draw_defs)

lemma sim_pen_altitude_command:
  "sim (\<lambda>e. e_pen e \<noteq> command_pen) q q' \<Longrightarrow>
   sim (\<lambda>e. e_pen e \<noteq> command_pen)
     (altitude_command subs self bw bh q) (altitude_command subs self bw bh q')"
  by (simp add: sim_def altitude_command_def Let_def draw_defs)

lemma sim_pen_pitch_command:
  "sim (\<lambda>e. e_pen e \<noteq> command_pen) q q' \<Longrightarrow>
   pen q = QPen4 Qt_white 2 SolidLine RoundCap \<Longrightarrow>
   sim (\<lambda>e. e_pen e \<noteq> command_pen)
     (pitch_command (subs\<lparr>ConInSub_enabled := False\<rparr>) self q)
     (pitch_command subs self q')"
  by (simp add: sim_def pitch_command_def Let_def draw_defs command_pen_def)

lemma fold_pen:
  assumes "\<And>i p. pen (f i p) = pen p"
  shows "pen (fold f xs p) = pen p"
  by (induction xs arbitrary: p) (simp_all add: assms)

lemma pitch_marker_pen [simp]: "pen (pitch_marker self i p) = pen p"
  by (simp add: pitch_marker_def Let_def draw_defs)

lemma drawGround_pen [simp]: "pen (drawGround self p) = QPen4 Qt_white 2 SolidLine RoundCap"
  by (simp add: drawGround_def Let_def draw_defs)

lemma sim_convex_render:
  assumes "sim (\<lambda>e. \<not> is_DrawConvexPolygon (e_call e)) q q'"
  shows "sim (\<lambda>e. \<not> is_DrawConvexPolygon (e_call e))
           (render (subs\<lparr>ConComSub_enabled := False\<rparr>) self q) (render subs self q')"
  unfolding render_def Let_def drawPitchIndicator_def drawAirspeedIndicator_def
    drawAltitudeIndicator_def drawOutputIndicator_def draw_defs
    pitch_command_other_fields drawBatteryMonitor_other_fields
  by (intro sim_prims sim_fold sim_drawSky sim_drawGround sim_pitch_marker
        sim_convex_pitch_command sim_drawTurnIndicator sim_drawAircraftSymbol
        sim_airspeed_tick sim_convex_airspeed_command sim_altitude_tick
        sim_convex_altitude_command sim_drawHeadingIndicator sim_drawNumSatellites
        sim_drawBatteryMonitor keeps_not_convex assms)
     simp_all

lemma sim_pen_render:
  assumes "sim (\<lambda>e. e_pen e \<noteq> command_pen) q q'"
  shows "sim (\<lambda>e. e_pen e \<noteq> command_pen)
           (render (subs\<lparr>ConInSub_enabled := False\<rparr>) self q) (render subs self q')"
  unfolding render_def Let_def drawPitchIndicator_def drawAirspeedIndicator_def
    drawAltitudeIndicator_def drawOutputIndicator_def draw_defs
    airspeed_command_other_fields altitude_command_other_fields drawBatteryMonitor_other_fields
  by (intro sim_prims sim_fold sim_drawSky sim_drawGround sim_pitch_marker
        sim_pen_pitch_command sim_drawTurnIndicator sim_drawAircraftSymbol
        sim_airspeed_tick sim_pen_airspeed_command sim_altitude_tick
        sim_pen_altitude_command sim_drawHeadingIndicator sim_drawNumSatellites
        sim_drawBatteryMonitor keeps_not_command_pen assms)
     (simp_all add: fold_pen)


lemma drawPitchIndicator_battery [simp]:
  "drawPitchIndicator (subs\<lparr>BatterySub_enabled := b\<rparr>) = drawPitchIndicator subs"
  by (simp add: drawPitchIndicator_def fun_eq_iff)

lemma drawAirspeedIndicator_battery [simp]:
  "drawAirspeedIndicator (subs\<lparr>BatterySub_enabled := b\<rparr>) = drawAirspeedIndicator subs"
  by (simp add: drawAirspeedIndicator_def fun_eq_iff)

lemma drawAltitudeIndicator_battery [simp]:
  "drawAltitudeIndicator (subs\<lparr>BatterySub_enabled := b\<rparr>) = drawAltitudeIndicator subs"
  by (simp add: drawAltitudeIndicator_def fun_eq_iff)

lemma drawBatteryMonitor_disabled:
  "drawBatteryMonitor (subs\<lparr>BatterySub_enabled := False\<rparr>) self p = p"
  by (simp add: drawBatteryMonitor_def)

lemma render_battery:
  "render subs self p =
     drawBatteryMonitor subs self (render (subs\<lparr>BatterySub_enabled := False\<rparr>) self p)"
  by (simp add: render_def Let_def drawBatteryMonitor_disabled)

lemma drawBatteryMonitor_calls:
  "calls (drawBatteryMonitor subs self q) =
     calls q @
     (if BatterySub_enabled subs then
        map (stamp (setBrush (QBrush1 Qt_red) q))
          [FillRect (QRectF 0 (0.8 * real_of_int (height self))
              (real_of_int (width self) * 0.13) (0.05 * real_of_int (height self)))
              (QBrush2 Qt_red SolidPattern),
           FillRect (QRectF 0 (0.8 * real_of_int (height self))
              (real_of_int (int_of_float (real_of_int (width self) * 0.13
                  * BatterySub_voltage_percent subs / 100)))
              (0.05 * real_of_int (height self)))
              (QBrush2 Qt_green SolidPattern)]
        @ [stamp (setPen (QPen1 Qt_black) (setBrush (QBrush1 Qt_red) q))
             (DrawTextOption (QRectF 0 (0.8 * real_of_int (height self))
                (real_of_int (width self) * 0.13) (0.05 * real_of_int (height self)))
                (Format_1f_V (BatterySub_voltage subs)) AlignCenter)]
      else [])"
  by (simp add: drawBatteryMonitor_def Let_def draw_defs stamp_def)

lemma channel_off_entries:
  "calls (snd (paintEvent (subs\<lparr>ConComSub_enabled := False\<rparr>) self))
     = filter (\<lambda>e. \<not> is_DrawConvexPolygon (e_call e)) (calls (snd (paintEvent subs self)))
   \<and> calls (snd (paintEvent (subs\<lparr>ConInSub_enabled := False\<rparr>) self))
     = filter (\<lambda>e. e_pen e \<noteq> QPen4 Qt_yellow 4 SolidLine RoundCap)
         (calls (snd (paintEvent subs self)))
   \<and> calls (snd (paintEvent subs self))
     = calls (snd (paintEvent (subs\<lparr>BatterySub_enabled := False\<rparr>) self))
       @ drop (length (calls (snd (paintEvent (subs\<lparr>BatterySub_enabled := False\<rparr>) self))))
           (calls (snd (paintEvent subs self)))
   \<and> map e_call
        (drop (length (calls (snd (paintEvent (subs\<lparr>BatterySub_enabled := False\<rparr>) self))))
           (calls (snd (paintEvent subs self))))
     = (if BatterySub_enabled subs then
          [FillRect (QRectF 0 (0.8 * real_of_int (height self))
              (real_of_int (width self) * 0.13) (0.05 * real_of_int (height self)))
              (QBrush2 Qt_red SolidPattern),
           FillRect (QRectF 0 (0.8 * real_of_int (height self))
              (real_of_int (int_of_float (real_of_int (width self) * 0.13
                  * BatterySub_voltage_percent subs / 100)))
              (0.05 * real_of_int (height self)))
              (QBrush2 Qt_green SolidPattern),
           DrawTextOption (QRectF 0 (0.8 * real_of_int (height self))
              (real_of_int (width self) * 0.13) (0.05 * real_of_int (height self)))
              (Format_1f_V (BatterySub_voltage subs)) AlignCenter]
        else [])
   \<and> filter (\<lambda>e. is_DrawConvexPolygon (e_call e))
        (calls (snd (paintEvent (subs\<lparr>ConComSub_enabled := False\<rparr>) self))) = []
   \<and> filter (\<lambda>e. e_pen e = QPen4 Qt_yellow 4 SolidLine RoundCap)
        (calls (snd (paintEvent (subs\<lparr>ConInSub_enabled := False\<rparr>) self))) = []
   \<and> fst (paintEvent (subs\<lparr>ConComSub_enabled := False\<rparr>) self) = fst (paintEvent subs self)
   \<and> fst (paintEvent (subs\<lparr>ConInSub_enabled := False\<rparr>) self) = fst (paintEvent subs self)
   \<and> fst (paintEvent (subs\<lparr>BatterySub_enabled := False\<rparr>) self) = fst (paintEvent subs self)"
proof -
  define s where "s = read_subscribers subs self"
  have start: "sim K new_painter new_painter" for K
    by (simp add: sim_def new_painter_def)
  have c: "calls (render (subs\<lparr>ConComSub_enabled := False\<rparr>) s new_painter)
      = filter (\<lambda>e. \<not> is_DrawConvexPolygon (e_call e)) (calls (render subs s new_painter))"
    using sim_convex_render [OF start, of subs s] by (simp add: sim_def)
  have p: "calls (render (subs\<lparr>ConInSub_enabled := False\<rparr>) s new_painter)
      = filter (\<lambda>e. e_pen e \<noteq> QPen4 Qt_yellow 4 SolidLine RoundCap)
          (calls (render subs s new_painter))"
    using sim_pen_render [OF start, of subs s] by (simp add: sim_def command_pen_def)
  have b: "calls (render subs s new_painter)
      = calls (render (subs\<lparr>BatterySub_enabled := False\<rparr>) s new_painter)
        @ (if BatterySub_enabled subs then
        map (stamp (setBrush (QBrush1 Qt_red) (render (subs\<lparr>BatterySub_enabled := False\<rparr>) s new_painter)))
          [FillRect (QRectF 0 (0.8 * real_of_int (height s))
              (real_of_int (width s) * 0.13) (0.05 * real_of_int (height s)))
              (QBrush2 Qt_red SolidPattern),
           FillRect (QRectF 0 (0.8 * real_of_int (height s))
              (real_of_int (int_of_float (real_of_int (width s) * 0.13
                  * BatterySub_voltage_percent subs / 100)))
              (0.05 * real_of_int (height s)))
              (QBrush2 Qt_green SolidPattern)]
        @ [stamp (setPen (QPen1 Qt_black) (setBrush (QBrush1 Qt_red) (render (subs\<lparr>BatterySub_enabled := False\<rparr>) s new_painter)))
             (DrawTextOption (QRectF 0 (0.8 * real_of_int (height s))
                (real_of_int (width s) * 0.13) (0.05 * real_of_int (height s)))
                (Format_1f_V (BatterySub_voltage subs)) AlignCenter)]
      else [])"
    by (subst render_battery) (simp only: drawBatteryMonitor_calls)
  have wh: "width s = width self" "height s = height self"
    by (simp_all add: s_def read_subscribers_def)
  have 1: "calls (snd (paintEvent (subs\<lparr>ConComSub_enabled := False\<rparr>) self))
     = filter (\<lambda>e. \<not> is_DrawConvexPolygon (e_call e)) (calls (snd (paintEvent subs self)))"
    using c by (simp add: paintEvent_def drawArtificialHorizon_def Let_def s_def)
  have 2: "calls (snd (paintEvent (subs\<lparr>ConInSub_enabled := False\<rparr>) self))
     = filter (\<lambda>e. e_pen e \<noteq> QPen4 Qt_yellow 4 SolidLine RoundCap)
         (calls (snd (paintEvent subs self)))"
    using p by (simp add: paintEvent_def drawArtificialHorizon_def Let_def s_def)
  have on: "snd (paintEvent subs self) = render subs s new_painter"
    by (simp add: paintEvent_def drawArtificialHorizon_def Let_def s_def)
  have off: "snd (paintEvent (subs\<lparr>BatterySub_enabled := False\<rparr>) self)
      = render (subs\<lparr>BatterySub_enabled := False\<rparr>) s new_painter"
    by (simp add: paintEvent_def drawArtificialHorizon_def Let_def s_def)
  have 3: "calls (snd (paintEvent subs self))
     = calls (snd (paintEvent (subs\<lparr>BatterySub_enabled := False\<rparr>) self))
       @ drop (length (calls (snd (paintEvent (subs\<lparr>BatterySub_enabled := False\<rparr>) self))))
           (calls (snd (paintEvent subs self)))"
  proof -
    obtain es where "calls (render subs s new_painter)
        = calls (render (subs\<lparr>BatterySub_enabled := False\<rparr>) s new_painter) @ es"
      using b by blast
    then show ?thesis
      unfolding on off by simp
  qed
  have 4: "map e_call
        (drop (length (calls (snd (paintEvent (subs\<lparr>BatterySub_enabled := False\<rparr>) self))))
           (calls (snd (paintEvent subs self))))
     = (if BatterySub_enabled subs then
          [FillRect (QRectF 0 (0.8 * real_of_int (height self))
              (real_of_int (width self) * 0.13) (0.05 * real_of_int (height self)))
              (QBrush2 Qt_red SolidPattern),
           FillRect (QRectF 0 (0.8 * real_of_int (height self))
              (real_of_int (int_of_float (real_of_int (width self) * 0.13
                  * BatterySub_voltage_percent subs / 100)))
              (0.05 * real_of_int (height self)))
              (QBrush2 Qt_green SolidPattern),
           DrawTextOption (QRectF 0 (0.8 * real_of_int (height self))
              (real_of_int (width self) * 0.13) (0.05 * real_of_int (height self)))
              (Format_1f_V (BatterySub_voltage subs)) AlignCenter]
        else [])"
    unfolding on off by (simp add: b wh)
  have 5: "filter (\<lambda>e. is_DrawConvexPolygon (e_call e))
        (calls (snd (paintEvent (subs\<lparr>ConComSub_enabled := False\<rparr>) self))) = []"
    unfolding 1 by simp
  have 6: "filter (\<lambda>e. e_pen e = QPen4 Qt_yellow 4 SolidLine RoundCap)
        (calls (snd (paintEvent (subs\<lparr>ConInSub_enabled := False\<rparr>) self))) = []"
    unfolding 2 by simp
  have 7: "fst (paintEvent (subs\<lparr>ConComSub_enabled := False\<rparr>) self) = fst (paintEvent subs self)"
    "fst (paintEvent (subs\<lparr>ConInSub_enabled := False\<rparr>) self) = fst (paintEvent subs self)"
    "fst (paintEvent (subs\<lparr>BatterySub_enabled := False\<rparr>) self) = fst (paintEvent subs self)"
    by (simp_all add: paintEvent_def drawArtificialHorizon_def Let_def)
  from 1 2 3 4 5 6 7 show ?thesis by blast
qed

subsection \<open>The pipeline of the redraw\<close>

lemma issues_comp:
  assumes "issues f a" and "issues g b"
  shows "issues (g \<circ> f) (a @ b)"
  unfolding issues_def
proof
  fix q
  from assms(1) obtain es1 where 1: "calls (f q) = calls q @ es1" "map e_call es1 = a"
    unfolding issues_def by blast
  from assms(2) obtain es2 where 2: "calls (g (f q)) = calls (f q) @ es2" "map e_call es2 = b"
    unfolding issues_def by blast
  from 1 2 have "calls ((g \<circ> f) q) = calls q @ (es1 @ es2) \<and> map e_call (es1 @ es2) = a @ b"
    by simp
  then show "\<exists>es. calls ((g \<circ> f) q) = calls q @ es \<and> map e_call es = a @ b"
    by blast
qed

lemma issues_issued: "issues f cs \<Longrightarrow> issued f p = cs"
  unfolding issues_def issued_def
proof -
  assume "\<forall>q. \<exists>es. calls (f q) = calls q @ es \<and> map e_call es = cs"
  then obtain es where "calls (f p) = calls p @ es" "map e_call es = cs"
    by blast
  then show "map e_call (drop (length (calls p)) (calls (f p))) = cs"
    by simp
qed

lemma issues_translate: "issues (translate x y) []"
  by (simp add: issues_def)

lemma issues_rotate_deg: "issues (rotate_deg a) []"
  by (simp add: issues_def)

lemma turn_tick_emits:
  "turn_tick xC yC x y x2 y2 x3 y3 a p =
     p\<lparr>calls := calls p @
        map (stamp (p\<lparr>transform :=
               tf_translate (- xC) (- yC) (tf_rotate (real_of_int a) (tf_translate xC yC (transform p)))\<rparr>))
          [DrawLine x y x2 y2,
           DrawText (QPoint (x3 - real_of_int (4 * len (str_int a))) y3) (Str (str_int a))]\<rparr>"
  by (simp add: turn_tick_def Let_def draw_defs emit_def translate_def rotate_deg_def stamp_def)

lemma turn_loop:
  "fold (turn_tick xC yC x y x2 y2 x3 y3) xs p =
     p\<lparr>calls := calls p @ concat (map (\<lambda>a.
        map (stamp (p\<lparr>transform :=
               tf_translate (- xC) (- yC) (tf_rotate (real_of_int a) (tf_translate xC yC (transform p)))\<rparr>))
          [DrawLine x y x2 y2,
           DrawText (QPoint (x3 - real_of_int (4 * len (str_int a))) y3) (Str (str_int a))]) xs)\<rparr>"
  by (subst fold_emits [where f = "turn_tick xC yC x y x2 y2 x3 y3", OF turn_tick_emits])
     (simp_all add: stamp_def)

lemma issues_drawSky: "issues (drawSky self) (issued (drawSky self) p)"
  by (simp add: issues_def issued_def drawSky_def Let_def draw_defs)

lemma issues_drawGround: "issues (drawGround self) (issued (drawGround self) p)"
  by (simp add: issues_def issued_def drawGround_def Let_def draw_defs)

lemma issues_drawAircraftSymbol:
  "issues (drawAircraftSymbol self) (issued (drawAircraftSymbol self) p)"
  by (simp add: issues_def issued_def drawAircraftSymbol_def Let_def draw_defs)

lemma issues_drawNumSatellites:
  "issues (drawNumSatellites self) (issued (drawNumSatellites self) p)"
  by (simp add: issues_def issued_def drawNumSatellites_def Let_def draw_defs)

lemma issues_drawOutputIndicator:
  "issues (drawOutputIndicator self) (issued (drawOutputIndicator self) p)"
  by (simp add: issues_def issued_def drawOutputIndicator_def)

lemma issues_drawBatteryMonitor:
  "issues (drawBatteryMonitor subs self) (issued (drawBatteryMonitor subs self) p)"
  by (simp add: issues_def issued_def drawBatteryMonitor_def Let_def draw_defs)

lemma issues_drawTurnIndicator:
  "issues (drawTurnIndicator self) (issued (drawTurnIndicator self) p)"
  by (simp add: issues_def issued_def drawTurnIndicator_def Let_def draw_defs turn_loop
        comp_def stamp_def del: fold.simps)

lemma issues_drawPitchIndicator:
  "issues (drawPitchIndicator subs self) (issued (drawPitchIndicator subs self) p)"
  by (simp add: issues_def issued_def drawPitchIndicator_def Let_def pitch_loop
        pitch_command_emits comp_def del: fold.simps cong: if_cong)

lemma issues_drawAirspeedIndicator:
  "issues (drawAirspeedIndicator subs self) (issued (drawAirspeedIndicator subs self) p)"
  by (simp add: issues_def issued_def drawAirspeedIndicator_def Let_def draw_defs airspeed_loop
        airspeed_command_emits comp_def del: fold.simps cong: if_cong)

lemma issues_drawAltitudeIndicator:
  "issues (drawAltitudeIndicator subs self) (issued (drawAltitudeIndicator subs self) p)"
  by (simp add: issues_def issued_def drawAltitudeIndicator_def Let_def draw_defs altitude_loop
        altitude_command_emits comp_def del: fold.simps cong: if_cong)

lemma issues_drawHeadingIndicator:
  "issues (drawHeadingIndicator self) (issued (drawHeadingIndicator self) p)"
  by (simp add: issues_def issued_def drawHeadingIndicator_def Let_def draw_defs heading_loop
        comp_def del: fold.simps cong: if_cong)


lemma render_comp:
  "render subs self =
     drawBatteryMonitor subs self \<circ> drawOutputIndicator self \<circ> drawNumSatellites self
     \<circ> drawHeadingIndicator self \<circ> drawAltitudeIndicator subs self
     \<circ> drawAirspeedIndicator subs self \<circ> drawAircraftSymbol self
     \<circ> translate (real_of_int (- width self div 2)) (real_of_int (- height self div 2))
     \<circ> rotate_deg (real_of_int (roll self))
     \<circ> translate (real_of_int (width self div 2)) (real_of_int (height self div 2))
     \<circ> drawTurnIndicator self
     \<circ> translate 0 (real_of_int (height self)
                        * (- 1 * real_of_int (pitch self) * pitchInterval self))
     \<circ> drawPitchIndicator subs self \<circ> drawGround self
     \<circ> translate 0 (real_of_int (height self) * (real_of_int (pitch self) * pitchInterval self))
     \<circ> translate (real_of_int (- width self div 2)) (real_of_int (- height self div 2))
     \<circ> rotate_deg (real_of_int (- roll self))
     \<circ> translate (real_of_int (width self div 2)) (real_of_int (height self div 2))
     \<circ> drawSky self"
  by (simp only: fun_eq_iff render_def Let_def comp_def) simp

lemma issues_render:
  "issues (render subs self)
     (issued (drawSky self) p @ [] @ [] @ [] @ []
      @ issued (drawGround self) p @ issued (drawPitchIndicator subs self) p @ []
      @ issued (drawTurnIndicator self) p @ [] @ [] @ []
      @ issued (drawAircraftSymbol self) p @ issued (drawAirspeedIndicator subs self) p
      @ issued (drawAltitudeIndicator subs self) p @ issued (drawHeadingIndicator self) p
      @ issued (drawNumSatellites self) p @ issued (drawOutputIndicator self) p
      @ issued (drawBatteryMonitor subs self) p)"
  unfolding render_comp
  by (intro issues_comp issues_translate issues_rotate_deg issues_drawSky issues_drawGround
        issues_drawPitchIndicator issues_drawTurnIndicator issues_drawAircraftSymbol
        issues_drawAirspeedIndicator issues_drawAltitudeIndicator issues_drawHeadingIndicator
        issues_drawNumSatellites issues_drawOutputIndicator issues_drawBatteryMonitor)

lemma render_pipeline:
  "issued (render subs self) p =
     issued (drawSky self) p @ issued (drawGround self) p
     @ issued (drawPitchIndicator subs self) p @ issued (drawTurnIndicator self) p
     @ issued (drawAircraftSymbol self) p @ issued (drawAirspeedIndicator subs self) p
     @ issued (drawAltitudeIndicator subs self) p @ issued (drawHeadingIndicator self) p
     @ issued (drawNumSatellites self) p @ issued (drawOutputIndicator self) p
     @ issued (drawBatteryMonitor subs self) p"
  using issues_issued [OF issues_render [of subs self p], of p] by simp

lemma renderers_draw:
  "issued (drawSky self) p \<noteq> []"
  "issued (drawGround self) p \<noteq> []"
  "issued (drawTurnIndicator self) p \<noteq> []"
  "issued (drawAircraftSymbol self) p \<noteq> []"
  "issued (drawAirspeedIndicator subs self) p \<noteq> []"
  "issued (drawAltitudeIndicator subs self) p \<noteq> []"
  "issued (drawHeadingIndicator self) p \<noteq> []"
  "issued (drawNumSatellites self) p \<noteq> []"
  by (simp_all add: drawAirspeedIndicator_issued drawAltitudeIndicator_issued
        drawHeadingIndicator_issued Let_def)
     (simp_all add: issued_def drawSky_def drawGround_def drawTurnIndicator_def
        drawAircraftSymbol_def drawNumSatellites_def Let_def draw_defs turn_loop
        del: fold.simps)

lemma filter_all_ticks:
  assumes "\<And>i. P (A i)" and "\<And>i. P (B i)"
  shows "filter P (concat (map (\<lambda>i. if c i then [A i, B i] else []) xs))
     = concat (map (\<lambda>i. if c i then [A i, B i] else []) xs)"
  by (induction xs) (simp_all add: assms)

lemma channel_off_renderers:
  "issued (drawBatteryMonitor (subs\<lparr>BatterySub_enabled := False\<rparr>) self) p = []"
  "issued (drawAirspeedIndicator (subs\<lparr>ConComSub_enabled := False\<rparr>) self) p
     = filter (\<lambda>c. \<not> is_DrawConvexPolygon c) (issued (drawAirspeedIndicator subs self) p)"
  "issued (drawAltitudeIndicator (subs\<lparr>ConComSub_enabled := False\<rparr>) self) p
     = filter (\<lambda>c. \<not> is_DrawConvexPolygon c) (issued (drawAltitudeIndicator subs self) p)"
  "issued (drawPitchIndicator subs self) p
     = issued (drawPitchIndicator (subs\<lparr>ConInSub_enabled := False\<rparr>) self) p
       @ issued (pitch_command subs self) p"
  "issued (pitch_command (subs\<lparr>ConInSub_enabled := False\<rparr>) self) p = []"
proof -
  show "issued (drawBatteryMonitor (subs\<lparr>BatterySub_enabled := False\<rparr>) self) p = []"
    by (simp add: issued_def drawBatteryMonitor_def)
  show "issued (drawAirspeedIndicator (subs\<lparr>ConComSub_enabled := False\<rparr>) self) p
     = filter (\<lambda>c. \<not> is_DrawConvexPolygon c) (issued (drawAirspeedIndicator subs self) p)"
    by (simp add: drawAirspeedIndicator_issued Let_def filter_all_ticks)
  show "issued (drawAltitudeIndicator (subs\<lparr>ConComSub_enabled := False\<rparr>) self) p
     = filter (\<lambda>c. \<not> is_DrawConvexPolygon c) (issued (drawAltitudeIndicator subs self) p)"
    by (simp add: drawAltitudeIndicator_issued Let_def filter_all_ticks)
  show "issued (drawPitchIndicator subs self) p
     = issued (drawPitchIndicator (subs\<lparr>ConInSub_enabled := False\<rparr>) self) p
       @ issued (pitch_command subs self) p"
    by (simp add: drawPitchIndicator_issued Let_def) (simp add: issued_def pitch_command_emits)
  show "issued (pitch_command (subs\<lparr>ConInSub_enabled := False\<rparr>) self) p = []"
    by (simp add: issued_def pitch_command_def)
qed

text \<open>
  C8. The redraw issues the calls of its renderers one after the other, in the order sky,
  ground, pitch ladder, turn indicator, aircraft symbol, speed tape, altitude tape, heading
  tape, satellite text, output indicator, battery monitor, whatever the channels are; sky,
  ground, turn indicator, aircraft symbol, the three tapes and the satellite text each
  issue at least one call. A disabled channel takes away its overlay and nothing else:
  with the battery off the battery monitor issues nothing, with the command source off
  the speed and altitude tapes issue their calls less the triangle, with the commanded
  pitch off the pitch indicator issues the ladder without the command marker. The whole
  redraw with a channel off has the entries (call, pen, brush, transform) of the redraw
  with it on, in order, less the convex polygons, less the entries drawn with the command
  pen (yellow, width 4), or less the three battery calls at the end; the widget after the
  redraw is the same either way.
\<close>

theorem optional_channels_suppress_only_overlay:
  "calls (snd (paintEvent (subs\<lparr>ConComSub_enabled := False\<rparr>) self))
     = filter (\<lambda>e. \<not> is_DrawConvexPolygon (e_call e)) (calls (snd (paintEvent subs self)))
   \<and> calls (snd (paintEvent (subs\<lparr>ConInSub_enabled := False\<rparr>) self))
     = filter (\<lambda>e. e_pen e \<noteq> QPen4 Qt_yellow 4 SolidLine RoundCap)
         (calls (snd (paintEvent subs self)))
   \<and> calls (snd (paintEvent subs self))
     = calls (snd (paintEvent (subs\<lparr>BatterySub_enabled := False\<rparr>) self))
       @ drop (length (calls (snd (paintEvent (subs\<lparr>BatterySub_enabled := False\<rparr>) self))))
           (calls (snd (paintEvent subs self)))
   \<and> map e_call
        (drop (length (calls (snd (paintEvent (subs\<lparr>BatterySub_enabled := False\<rparr>) self))))
           (calls (snd (paintEvent subs self))))
     = (if BatterySub_enabled subs then
          [FillRect (QRectF 0 (0.8 * real_of_int (height self))
              (real_of_int (width self) * 0.13) (0.05 * real_of_int (height self)))
              (QBrush2 Qt_red SolidPattern),
           FillRect (QRectF 0 (0.8 * real_of_int (height self))
              (real_of_int (int_of_float (real_of_int (width self) * 0.13
                  * BatterySub_voltage_percent subs / 100)))
              (0.05 * real_of_int (height self)))
              (QBrush2 Qt_green SolidPattern),
           DrawTextOption (QRectF 0 (0.8 * real_of_int (height self))
              (real_of_int (width self) * 0.13) (0.05 * real_of_int (height self)))
              (Format_1f_V (BatterySub_voltage subs)) AlignCenter]
        else [])
   \<and> filter (\<lambda>e. is_DrawConvexPolygon (e_call e))
        (calls (snd (paintEvent (subs\<lparr>ConComSub_enabled := False\<rparr>) self))) = []
   \<and> filter (\<lambda>e. e_pen e = QPen4 Qt_yellow 4 SolidLine RoundCap)
        (calls (snd (paintEvent (subs\<lparr>ConInSub_enabled := False\<rparr>) self))) = []
   \<and> fst (paintEvent (subs\<lparr>ConComSub_enabled := False\<rparr>) self) = fst (paintEvent subs self)
   \<and> fst (paintEvent (subs\<lparr>ConInSub_enabled := False\<rparr>) self) = fst (paintEvent subs self)
   \<and> fst (paintEvent (subs\<lparr>BatterySub_enabled := False\<rparr>) self) = fst (paintEvent subs self)
   \<and> snd (paintEvent subs self) = render subs (read_subscribers subs self) new_painter
   \<and> issued (render subs self) p =
       issued (drawSky self) p @ issued (drawGround self) p
       @ issued (drawPitchIndicator subs self) p @ issued (drawTurnIndicator self) p
       @ issued (drawAircraftSymbol self) p @ issued (drawAirspeedIndicator subs self) p
       @ issued (drawAltitudeIndicator subs self) p @ issued (drawHeadingIndicator self) p
       @ issued (drawNumSatellites self) p @ issued (drawOutputIndicator self) p
       @ issued (drawBatteryMonitor subs self) p
   \<and> issued (drawSky self) p \<noteq> []
   \<and> issued (drawGround self) p \<noteq> []
   \<and> issued (drawTurnIndicator self) p \<noteq> []
   \<and> issued (drawAircraftSymbol self) p \<noteq> []
   \<and> issued (drawAirspeedIndicator subs self) p \<noteq> []
   \<and> issued (drawAltitudeIndicator subs self) p \<noteq> []
   \<and> issued (drawHeadingIndicator self) p \<noteq> []
   \<and> issued (drawNumSatellites self) p \<noteq> []
   \<and> issued (drawBatteryMonitor (subs\<lparr>BatterySub_enabled := False\<rparr>) self) p = []
   \<and> issued (drawAirspeedIndicator (subs\<lparr>ConComSub_enabled := False\<rparr>) self) p
       = filter (\<lambda>c. \<not> is_DrawConvexPolygon c) (issued (drawAirspeedIndicator subs self) p)
   \<and> issued (drawAltitudeIndicator (subs\<lparr>ConComSub_enabled := False\<rparr>) self) p
       = filter (\<lambda>c. \<not> is_DrawConvexPolygon c) (issued (drawAltitudeIndicator subs self) p)
   \<and> issued (drawPitchIndicator subs self) p
       = issued (drawPitchIndicator (subs\<lparr>ConInSub_enabled := False\<rparr>) self) p
         @ issued (pitch_command subs self) p
   \<and> issued (pitch_command (subs\<lparr>ConInSub_enabled := False\<rparr>) self) p = []"
proof -
  have paint: "snd (paintEvent subs self)
      = render subs (read_subscribers subs self) new_painter"
    by (simp add: paintEvent_def drawArtificialHorizon_def Let_def)
  from channel_off_entries [of subs self] paint render_pipeline [of subs self p]
    renderers_draw(1-4) [where self = self and p = p]
    renderers_draw(5-6) [where self = self and p = p and subs = subs]
    renderers_draw(7-8) [where self = self and p = p]
    channel_off_renderers [where self = self and p = p and subs = subs]
  show ?thesis
    apply -
    apply (elim conjE)
    apply (intro conjI)
    apply assumption+
    done
qed

end
